theory Spec2Isabelle
  imports Complex_Main
begin

section \<open>Numbers, arrays and the random source\<close>

text \<open>
  The particle engine (ParticleSystem.js, with MathUtils.js and the callers in
  ParticleEffects.js) computes on JavaScript numbers. They are modelled as exact reals
  together with \<open>NaN\<close>. The finite range and precision of doubles and of the
  \<open>Float32Array\<close> buffers are not modelled: no result is rounded, none overflows to an
  infinity and none underflows to zero. The model is therefore the code on numbers of
  ordinary size only, and up to rounding; the statements that depend on the value of a
  sum, a product, a quotient or a comparison say for which sizes they are made
  (\<open>ordinary_size\<close>, \<open>ordinary_offset\<close>, \<open>ordinary_radius\<close>, \<open>clear_of_circle\<close>,
  \<open>clear_miss\<close> below). \<open>NaN\<close> is also what \<open>undefined\<close> becomes inside arithmetic, so
  a read past the end of a numeric array is \<open>NaN\<close>. Configuration values, hand
  coordinates and the arguments of \<open>emitParticle\<close> are finite numbers by type.
\<close>

datatype jsnum = Fin real | NaN

fun jadd :: "jsnum \<Rightarrow> jsnum \<Rightarrow> jsnum" where
  "jadd (Fin a) (Fin b) = Fin (a + b)"
| "jadd _ _ = NaN"

fun jsub :: "jsnum \<Rightarrow> jsnum \<Rightarrow> jsnum" where
  "jsub (Fin a) (Fin b) = Fin (a - b)"
| "jsub _ _ = NaN"

fun jmul :: "jsnum \<Rightarrow> jsnum \<Rightarrow> jsnum" where
  "jmul (Fin a) (Fin b) = Fin (a * b)"
| "jmul _ _ = NaN"

text \<open>
  \<open>0 / 0\<close> is \<open>NaN\<close>. A non-zero number divided by zero is an infinity in JavaScript;
  the model has no infinities and returns \<open>NaN\<close> there, which is not what the code
  computes. In the exact arithmetic of the model the engine does not reach that case:
  its only divisor that can be zero is the planar distance, and then both numerators are
  zero too (lemma \<open>zero_distance_zero_offsets\<close>). In double precision it does: the
  squares of offsets below about \<open>1e-162\<close> underflow to zero, the distance of a tip that
  close is computed as zero, and a non-zero offset divided by it is an infinity. No
  statement of this theory is made for such offsets: those about the size of a push
  require every offset to be zero or at least \<open>1e-100\<close> (\<open>ordinary_offset\<close>).
\<close>

fun jdiv :: "jsnum \<Rightarrow> jsnum \<Rightarrow> jsnum" where
  "jdiv (Fin a) (Fin b) = (if b = 0 then NaN else Fin (a / b))"
| "jdiv _ _ = NaN"

fun jsqrt :: "jsnum \<Rightarrow> jsnum" where
  "jsqrt (Fin a) = (if a < 0 then NaN else Fin (sqrt a))"
| "jsqrt NaN = NaN"

fun jmin :: "jsnum \<Rightarrow> jsnum \<Rightarrow> jsnum" where
  "jmin (Fin a) (Fin b) = Fin (min a b)"
| "jmin _ _ = NaN"

text \<open>Comparisons with \<open>NaN\<close> are false.\<close>

fun jlt :: "jsnum \<Rightarrow> jsnum \<Rightarrow> bool" where
  "jlt (Fin a) (Fin b) = (a < b)"
| "jlt _ _ = False"

fun jle :: "jsnum \<Rightarrow> jsnum \<Rightarrow> bool" where
  "jle (Fin a) (Fin b) = (a \<le> b)"
| "jle _ _ = False"

text \<open>
  An ordinary JavaScript array grows when an index at or past its end is assigned; the
  indices in between become holes, which read as \<open>undefined\<close>. \<open>arr_set hole\<close> is
  that assignment, with \<open>hole\<close> the reading of a hole at the element type: \<open>NaN\<close> for
  numbers, \<open>False\<close> for the flags (only ever tested with \<open>!\<close>), \<open>None\<close> for objects.
\<close>

definition arr_set :: "'a \<Rightarrow> 'a list \<Rightarrow> nat \<Rightarrow> 'a \<Rightarrow> 'a list" where
  "arr_set hole xs i v =
     (if i < length xs then xs[i := v] else xs @ replicate (i - length xs) hole @ [v])"

definition arr_get :: "jsnum list \<Rightarrow> nat \<Rightarrow> jsnum" where
  "arr_get xs i = (if i < length xs then xs ! i else NaN)"

definition flag_get :: "bool list \<Rightarrow> nat \<Rightarrow> bool" where
  "flag_get xs i = (i < length xs \<and> xs ! i)"

definition obj_get :: "'a option list \<Rightarrow> nat \<Rightarrow> 'a option" where
  "obj_get xs i = (if i < length xs then xs ! i else None)"

text \<open>
  A \<open>Float32Array\<close> has a fixed length: a write past its end is ignored, a read past
  its end is \<open>undefined\<close>.
\<close>

definition f32_set :: "jsnum list \<Rightarrow> nat \<Rightarrow> jsnum \<Rightarrow> jsnum list" where
  "f32_set xs i v = (if i < length xs then xs[i := v] else xs)"

definition f32_get :: "jsnum list \<Rightarrow> nat \<Rightarrow> jsnum" where
  "f32_get xs i = (if i < length xs then xs ! i else NaN)"

text \<open>
  \<open>Math.random()\<close> is an explicit stream of draws, each in \<open>[0, 1)\<close> by its contract
  (\<open>rng_ok\<close>); a call takes the head and leaves the tail. An index
  \<open>Math.floor(r * n)\<close> of a draw is then a natural number, \<open>nat \<lfloor>r * n\<rfloor>\<close>.
\<close>

type_synonym rng = "nat \<Rightarrow> real"

definition random_next :: "rng \<Rightarrow> real \<times> rng" where
  "random_next g = (g 0, \<lambda>n. g (Suc n))"

definition rng_ok :: "rng \<Rightarrow> bool" where
  "rng_ok g = (\<forall>n. 0 \<le> g n \<and> g n < 1)"

text \<open>MathUtils.randomInt, on the draw \<open>r\<close> of its call to \<open>Math.random()\<close>.\<close>

definition randomInt :: "int \<Rightarrow> int \<Rightarrow> real \<Rightarrow> int" where
  "randomInt mn mx r = \<lfloor>r * real_of_int (mx - mn + 1)\<rfloor> + mn"

section \<open>Data model\<close>

type_synonym rgb = "real \<times> real \<times> real"

record vec3 =
  vec_x :: jsnum
  vec_y :: jsnum
  vec_z :: jsnum

record tip =
  tip_x :: real
  tip_y :: real
  tip_z :: real

record hand_velocity =
  hv_x :: real
  hv_y :: real

record hand =
  tips :: "tip list"
  fingerExtension :: "bool list"
  velocity :: "hand_velocity option"

text \<open>
  \<open>Config.particles\<close>. The palette holds each colour as the RGB triple that
  \<open>THREE.Color\<close> reads from its hex string. By type, \<open>count\<close> is a natural number and
  \<open>emissionRate\<close> an integer, as in config.js and in the settings panel.
\<close>

record particle_options =
  count :: nat
  size' :: real
  maxSpeed :: real
  lifetime :: real
  colors :: "rgb list"
  emissionRate :: int
  gravity :: real
  friction :: real
  bounceStrength :: real
  interactionRadius :: real

text \<open>
  The argument of \<open>updateProperties\<close>: an object holding any subset of the keys.
\<close>

record properties =
  p_count :: "nat option"
  p_size :: "real option"
  p_maxSpeed :: "real option"
  p_lifetime :: "real option"
  p_colors :: "rgb list option"
  p_emissionRate :: "int option"
  p_gravity :: "real option"
  p_friction :: "real option"
  p_bounceStrength :: "real option"
  p_interactionRadius :: "real option"

text \<open>
  The fields of a \<open>ParticleSystem\<close>. \<open>particles\<close> and \<open>particleColors\<close> are the two
  \<open>Float32Array\<close> buffers (three entries per slot); \<open>velocities\<close>, \<open>lifetimes\<close>,
  \<open>active\<close> and \<open>this.colors\<close> (\<open>colors_this\<close>) are ordinary arrays with one entry
  per slot. \<open>fingerPositions\<close> is the latest snapshot, \<open>None\<close> when
  \<open>handData.hands\<close> was \<open>undefined\<close>.
\<close>

record psys =
  options :: particle_options
  maxParticles :: nat
  particles :: "jsnum list"
  particleColors :: "jsnum list"
  velocities :: "vec3 option list"
  lifetimes :: "jsnum list"
  active :: "bool list"
  colors_this :: "rgb list"
  particleCount :: nat
  fingerPositions :: "hand list option"

datatype error = TypeError

section \<open>Construction\<close>

text \<open>
  The constructor; \<open>opts\<close> is \<open>Config.particles\<close> already merged with the argument.
  The two buffers are \<open>null\<close> until \<open>init\<close> allocates them.
\<close>

definition constructor :: "particle_options \<Rightarrow> psys" where
  "constructor opts =
     \<lparr>options = opts, maxParticles = count opts, particles = [], particleColors = [],
      velocities = [], lifetimes = [], active = [], colors_this = [],
      particleCount = 0, fingerPositions = Some []\<rparr>"

text \<open>
  \<open>getRandomColor\<close>: the palette entry at \<open>floor(r * colors.length)\<close>, or \<open>undefined\<close>
  (\<open>None\<close>) when the index is past the end, as for an empty palette.
\<close>

definition getRandomColor :: "rng \<Rightarrow> psys \<Rightarrow> rgb option \<times> rng" where
  "getRandomColor g s =
     (let (r, g1) = random_next g;
          colorIndex = nat \<lfloor>r * real (length (colors (options s)))\<rfloor>
      in (if colorIndex < length (colors (options s))
          then Some (colors (options s) ! colorIndex) else None, g1))"

text \<open>
  \<open>new THREE.Color(c)\<close>: the palette entry, or three.js' default white when the
  argument is \<open>undefined\<close>.
\<close>

definition THREE_Color :: "rgb option \<Rightarrow> rgb" where
  "THREE_Color c = (case c of Some v \<Rightarrow> v | None \<Rightarrow> (1, 1, 1))"

text \<open>
  \<open>init\<close>: two fresh buffers of \<open>3 * maxParticles\<close> zeros, filled slot by slot while
  the ordinary arrays receive one entry per slot.
\<close>

fun init_loop :: "nat list \<Rightarrow> rng \<times> jsnum list \<times> jsnum list \<times> psys
    \<Rightarrow> rng \<times> jsnum list \<times> jsnum list \<times> psys" where
  "init_loop [] a = a"
| "init_loop (i # is) (g, positions, cols, s) =
     (let positions = f32_set positions (i * 3) (Fin 0);
          positions = f32_set positions (i * 3 + 1) (Fin 0);
          positions = f32_set positions (i * 3 + 2) (Fin (- 1000));
          (c, g1) = getRandomColor g s;
          color = THREE_Color c;
          cols = f32_set cols (i * 3) (Fin (fst color));
          cols = f32_set cols (i * 3 + 1) (Fin (fst (snd color)));
          cols = f32_set cols (i * 3 + 2) (Fin (snd (snd color)));
          s = s\<lparr>velocities := velocities s @ [Some \<lparr>vec_x = Fin 0, vec_y = Fin 0, vec_z = Fin 0\<rparr>],
                lifetimes := lifetimes s @ [Fin 0],
                active := active s @ [False],
                colors_this := colors_this s @ [color]\<rparr>
      in init_loop is (g1, positions, cols, s))"

definition init :: "rng \<times> psys \<Rightarrow> rng \<times> psys" where
  "init a =
     (case a of (g, s) \<Rightarrow>
        (case init_loop [0..<maxParticles s]
                (g, replicate (maxParticles s * 3) (Fin 0),
                 replicate (maxParticles s * 3) (Fin 0), s) of
           (g1, positions, cols, s1) \<Rightarrow>
             (g1, s1\<lparr>particles := positions, particleColors := cols\<rparr>)))"

section \<open>Interaction with the finger tips\<close>

text \<open>
  The body of the inner \<open>forEach\<close> of \<open>handleFingerInteraction\<close>, for one tip of one
  hand; \<open>px\<close> and \<open>py\<close> were read from the position buffer before the loops. The
  callback's \<open>fingerIndex\<close> is not used by the body. The distance, the two quotients
  and the test against the radius are computed exactly here; the code computes them in
  double precision, where \<open>dx * dx + dy * dy\<close> underflows to zero for offsets below about
  \<open>1e-162\<close> and overflows for offsets above about \<open>1e154\<close>, and where rounding can
  change the outcome of the test for a tip within a few units in the last place of the
  circle. Outside these cases the two agree up to rounding.
\<close>

definition interact_tip :: "nat \<Rightarrow> jsnum \<Rightarrow> jsnum \<Rightarrow> hand \<Rightarrow> tip \<Rightarrow> psys \<Rightarrow> error + psys" where
  "interact_tip index px py h t s =
     (let dx = jsub (Fin (tip_x t)) px;
          dy = jsub (Fin (tip_y t)) py;
          distance = jsqrt (jadd (jmul dx dx) (jmul dy dy))
      in if jlt distance (Fin (interactionRadius (options s))) then
           (let pushStrength =
                  jmul (Fin 0.5)
                    (jsub (Fin 1) (jdiv distance (Fin (interactionRadius (options s)))));
                vx = (case velocity h of Some hv \<Rightarrow> hv_x hv * 0.1 | None \<Rightarrow> 0);
                vy = (case velocity h of Some hv \<Rightarrow> hv_y hv * 0.1 | None \<Rightarrow> 0)
            in case obj_get (velocities s) index of
                 None \<Rightarrow> Inl TypeError
               | Some v \<Rightarrow>
                   Inr (s\<lparr>velocities := (velocities s)[index := Some
                              (v\<lparr>vec_x := jadd (vec_x v)
                                             (jadd (jmul (jdiv dx distance) pushStrength) (Fin vx)),
                                 vec_y := jadd (vec_y v)
                                             (jadd (jmul (jdiv dy distance) pushStrength) (Fin vy))\<rparr>)],
                          particleColors := f32_set (particleColors s) (index * 3)
                              (jmin (Fin 1) (jadd (f32_get (particleColors s) (index * 3)) (Fin 0.05))),
                          lifetimes := arr_set NaN (lifetimes s) index
                              (jadd (arr_get (lifetimes s) index) (Fin 5))\<rparr>))
         else Inr s)"

fun interact_tips :: "nat \<Rightarrow> jsnum \<Rightarrow> jsnum \<Rightarrow> hand \<Rightarrow> tip list \<Rightarrow> psys \<Rightarrow> error + psys" where
  "interact_tips index px py h [] s = Inr s"
| "interact_tips index px py h (t # ts) s =
     (case interact_tip index px py h t s of
        Inl e \<Rightarrow> Inl e
      | Inr s1 \<Rightarrow> interact_tips index px py h ts s1)"

fun interact_hands :: "nat \<Rightarrow> jsnum \<Rightarrow> jsnum \<Rightarrow> hand list \<Rightarrow> psys \<Rightarrow> error + psys" where
  "interact_hands index px py [] s = Inr s"
| "interact_hands index px py (h # hs) s =
     (case interact_tips index px py h (tips h) s of
        Inl e \<Rightarrow> Inl e
      | Inr s1 \<Rightarrow> interact_hands index px py hs s1)"

definition handleFingerInteraction :: "nat \<Rightarrow> psys \<Rightarrow> error + psys" where
  "handleFingerInteraction index s =
     (case fingerPositions s of
        None \<Rightarrow> Inr s
      | Some hands \<Rightarrow>
          if hands = [] then Inr s
          else interact_hands index
                 (f32_get (particles s) (index * 3))
                 (f32_get (particles s) (index * 3 + 1)) hands s)"

section \<open>Emission\<close>

text \<open>
  The first part of \<open>emitParticle\<close>: the scan for the first inactive slot and, when
  there is none, the draw of a random one.
\<close>

definition select_slot :: "rng \<Rightarrow> psys \<Rightarrow> nat \<times> rng" where
  "select_slot g s =
     (case find (\<lambda>i. \<not> flag_get (active s) i) [0..<maxParticles s] of
        Some i \<Rightarrow> (i, g)
      | None \<Rightarrow> (let (r, g') = random_next g
                  in (nat \<lfloor>r * real (maxParticles s)\<rfloor>, g')))"

text \<open>
  \<open>emitParticle\<close> has no \<open>return\<close> statement: every call evaluates to
  \<open>undefined\<close>, the \<open>None\<close> of the first component.
\<close>

definition emitParticle :: "real \<Rightarrow> real \<Rightarrow> real \<Rightarrow> rng \<times> psys \<Rightarrow> nat option \<times> rng \<times> psys" where
  "emitParticle x y z a =
     (case a of (g, s) \<Rightarrow>
       (let (particleIndex, g0) = select_slot g s;
            s = s\<lparr>active := arr_set False (active s) particleIndex True\<rparr>;
            s = s\<lparr>particles :=
                    f32_set (f32_set (f32_set (particles s) (particleIndex * 3) (Fin x))
                               (particleIndex * 3 + 1) (Fin y))
                      (particleIndex * 3 + 2) (Fin z)\<rparr>;
            (r1, g1) = random_next g0;
            angle = r1 * pi * 2;
            (r2, g2) = random_next g1;
            speed = r2 * maxSpeed (options s);
            (r3, g3) = random_next g2;
            s = s\<lparr>velocities := arr_set None (velocities s) particleIndex
                    (Some \<lparr>vec_x = Fin (cos angle * speed),
                           vec_y = Fin (sin angle * speed),
                           vec_z = Fin ((r3 - 0.5) * 0.2)\<rparr>)\<rparr>;
            s = s\<lparr>lifetimes := arr_set NaN (lifetimes s) particleIndex
                    (Fin (lifetime (options s)))\<rparr>;
            (c, g4) = getRandomColor g3 s;
            color = THREE_Color c;
            s = s\<lparr>particleColors :=
                    f32_set (f32_set (f32_set (particleColors s) (particleIndex * 3) (Fin (fst color)))
                               (particleIndex * 3 + 1) (Fin (fst (snd color))))
                      (particleIndex * 3 + 2) (Fin (snd (snd color)))\<rparr>
        in (None, g4, s)))"

text \<open>The \<open>for\<close> loop of \<open>emitParticlesFromFingers\<close>: \<open>n\<close> calls at one tip.\<close>

fun emit_times :: "nat \<Rightarrow> tip \<Rightarrow> rng \<times> psys \<Rightarrow> rng \<times> psys" where
  "emit_times 0 t a = a"
| "emit_times (Suc n) t a = emit_times n t (snd (emitParticle (tip_x t) (tip_y t) 0 a))"

definition emit_tip :: "hand \<Rightarrow> tip \<Rightarrow> nat \<Rightarrow> rng \<times> psys \<Rightarrow> rng \<times> psys" where
  "emit_tip h t fingerIndex a =
     (case a of (g, s) \<Rightarrow>
        if flag_get (fingerExtension h) fingerIndex then
          (let (r, g1) = random_next g;
               emitCount = randomInt 1 (emissionRate (options s)) r
           in emit_times (nat emitCount) t (g1, s))
        else (g, s))"

fun emit_tips :: "hand \<Rightarrow> tip list \<Rightarrow> nat \<Rightarrow> rng \<times> psys \<Rightarrow> rng \<times> psys" where
  "emit_tips h [] fingerIndex a = a"
| "emit_tips h (t # ts) fingerIndex a = emit_tips h ts (Suc fingerIndex) (emit_tip h t fingerIndex a)"

fun emit_hands :: "hand list \<Rightarrow> rng \<times> psys \<Rightarrow> rng \<times> psys" where
  "emit_hands [] a = a"
| "emit_hands (h # hs) a = emit_hands hs (emit_tips h (tips h) 0 a)"

definition emitParticlesFromFingers :: "rng \<times> psys \<Rightarrow> rng \<times> psys" where
  "emitParticlesFromFingers a =
     (case fingerPositions (snd a) of
        None \<Rightarrow> a
      | Some hands \<Rightarrow> if hands = [] then a else emit_hands hands a)"

section \<open>Effects\<close>

text \<open>
  \<open>ParticleEffects.createExplosion\<close>: \<open>particleCount\<close> calls of \<open>emitParticle\<close> around a
  centre. The value of each call is tested against \<open>undefined\<close> before the colour is
  overwritten. The other effects (\<open>createFountain\<close>, \<open>createVortex\<close>, \<open>createTrailEffect\<close>,
  \<open>createBurst\<close>) have the same shape: a call of \<open>emitParticle\<close>, then writes guarded by
  \<open>particle !== undefined\<close>.
\<close>

fun createExplosion :: "real \<Rightarrow> real \<Rightarrow> real \<Rightarrow> nat \<Rightarrow> real \<Rightarrow> rgb option \<Rightarrow> rng \<times> psys \<Rightarrow> rng \<times> psys" where
  "createExplosion x y z 0 radius color a = a"
| "createExplosion x y z (Suc n) radius color a =
     (let (r1, g1) = random_next (fst a);
          angle = r1 * pi * 2;
          (r2, g2) = random_next g1;
          distance = r2 * radius;
          px = x + cos angle * distance;
          py = y + sin angle * distance;
          (particle, g3, s1) = emitParticle px py z (g2, snd a);
          s2 = (case color of
                  None \<Rightarrow> s1
                | Some c \<Rightarrow>
                    (case particle of
                       None \<Rightarrow> s1
                     | Some p \<Rightarrow>
                         s1\<lparr>particleColors :=
                              f32_set (f32_set (f32_set (particleColors s1) (p * 3) (Fin (fst c)))
                                         (p * 3 + 1) (Fin (fst (snd c))))
                                (p * 3 + 2) (Fin (snd (snd c)))\<rparr>))
      in createExplosion x y z n radius color (g3, s2))"

section \<open>The frame update\<close>

text \<open>
  The body of the \<open>for\<close> loop of \<open>update\<close> at slot \<open>i\<close>, on the running
  \<open>activeCount\<close> and the system. The opacity it computes is a local that is never
  stored.
\<close>

definition update_slot :: "nat \<Rightarrow> nat \<times> psys \<Rightarrow> error + nat \<times> psys" where
  "update_slot i a =
     (case a of (activeCount, s) \<Rightarrow>
        if \<not> flag_get (active s) i then Inr (activeCount, s)
        else
          (let s1 = s\<lparr>lifetimes := arr_set NaN (lifetimes s) i
                         (jsub (arr_get (lifetimes s) i) (Fin 1))\<rparr>
           in if jle (arr_get (lifetimes s1) i) (Fin 0) then
                Inr (activeCount + 1,
                     s1\<lparr>active := arr_set False (active s1) i False,
                        particles := f32_set (particles s1) (i * 3 + 2) (Fin (- 1000))\<rparr>)
              else
                (case obj_get (velocities s1) i of
                   None \<Rightarrow> Inl TypeError
                 | Some v \<Rightarrow>
                     (let v = v\<lparr>vec_y := jadd (vec_y v) (Fin (gravity (options s1)))\<rparr>;
                          v = v\<lparr>vec_x := jmul (vec_x v) (Fin (friction (options s1)))\<rparr>;
                          v = v\<lparr>vec_y := jmul (vec_y v) (Fin (friction (options s1)))\<rparr>;
                          v = v\<lparr>vec_z := jmul (vec_z v) (Fin (friction (options s1)))\<rparr>;
                          s2 = s1\<lparr>velocities := (velocities s1)[i := Some v]\<rparr>;
                          p = particles s2;
                          p = f32_set p (i * 3) (jadd (f32_get p (i * 3)) (vec_x v));
                          p = f32_set p (i * 3 + 1) (jadd (f32_get p (i * 3 + 1)) (vec_y v));
                          p = f32_set p (i * 3 + 2) (jadd (f32_get p (i * 3 + 2)) (vec_z v));
                          s3 = s2\<lparr>particles := p\<rparr>
                      in case handleFingerInteraction i s3 of
                           Inl e \<Rightarrow> Inl e
                         | Inr s4 \<Rightarrow> Inr (activeCount + 1, s4)))))"

fun update_slots :: "nat list \<Rightarrow> nat \<times> psys \<Rightarrow> error + nat \<times> psys" where
  "update_slots [] a = Inr a"
| "update_slots (i # is) a =
     (case update_slot i a of Inl e \<Rightarrow> Inl e | Inr a1 \<Rightarrow> update_slots is a1)"

text \<open>The particle pass of \<open>update\<close>: its \<open>for\<close> loop over all slots.\<close>

definition update_particles :: "psys \<Rightarrow> error + nat \<times> psys" where
  "update_particles s = update_slots [0..<maxParticles s] (0, s)"

text \<open>
  \<open>update(deltaTime, frameCount)\<close>: the particle pass, the emission on even frames and,
  every 30 frames, the stored count of active particles. The notifications to three.js
  and the status event carry nothing back into the system.
\<close>

definition update :: "real \<Rightarrow> nat \<Rightarrow> rng \<times> psys \<Rightarrow> error + rng \<times> psys" where
  "update deltaTime frameCount a =
     (case a of (g, s) \<Rightarrow>
        (case update_particles s of
           Inl e \<Rightarrow> Inl e
         | Inr (activeCount, s1) \<Rightarrow>
             (let (g2, s2) = (if frameCount mod 2 = 0 then emitParticlesFromFingers (g, s1)
                              else (g, s1));
                  s3 = (if frameCount mod 30 = 0 then s2\<lparr>particleCount := activeCount\<rparr> else s2)
              in Inr (g2, s3))))"

section \<open>Snapshot, reset and configuration\<close>

definition updateFromHandData :: "hand list option \<Rightarrow> psys \<Rightarrow> psys" where
  "updateFromHandData hands s = s\<lparr>fingerPositions := hands\<rparr>"

definition reset_slot :: "nat \<Rightarrow> psys \<Rightarrow> psys" where
  "reset_slot i s =
     s\<lparr>active := arr_set False (active s) i False,
       particles := f32_set (particles s) (i * 3 + 2) (Fin (- 1000))\<rparr>"

definition reset :: "psys \<Rightarrow> psys" where
  "reset s = fold reset_slot [0..<maxParticles s] s"

text \<open>
  \<open>updateProperties\<close>: the object spread \<open>{ ...this.options, ...properties }\<close>, key by
  key. The size it forwards to the three.js material does not come back into the
  system.
\<close>

definition merge_options :: "particle_options \<Rightarrow> properties \<Rightarrow> particle_options" where
  "merge_options opts p =
     \<lparr>count = (case p_count p of Some v \<Rightarrow> v | None \<Rightarrow> count opts),
      size' = (case p_size p of Some v \<Rightarrow> v | None \<Rightarrow> size' opts),
      maxSpeed = (case p_maxSpeed p of Some v \<Rightarrow> v | None \<Rightarrow> maxSpeed opts),
      lifetime = (case p_lifetime p of Some v \<Rightarrow> v | None \<Rightarrow> lifetime opts),
      colors = (case p_colors p of Some v \<Rightarrow> v | None \<Rightarrow> colors opts),
      emissionRate = (case p_emissionRate p of Some v \<Rightarrow> v | None \<Rightarrow> emissionRate opts),
      gravity = (case p_gravity p of Some v \<Rightarrow> v | None \<Rightarrow> gravity opts),
      friction = (case p_friction p of Some v \<Rightarrow> v | None \<Rightarrow> friction opts),
      bounceStrength = (case p_bounceStrength p of Some v \<Rightarrow> v | None \<Rightarrow> bounceStrength opts),
      interactionRadius =
        (case p_interactionRadius p of Some v \<Rightarrow> v | None \<Rightarrow> interactionRadius opts)\<rparr>"

definition updateProperties :: "properties \<Rightarrow> psys \<Rightarrow> psys" where
  "updateProperties p s = s\<lparr>options := merge_options (options s) p\<rparr>"

section \<open>Invariants and auxiliary notions\<close>

text \<open>
  The shape of a pool after \<open>init\<close>: the two buffers hold three entries per slot, the
  three ordinary arrays have one entry per slot (for a pool of capacity 0, one entry at
  most, and then an active one), every velocity object exists, every lifetime is a
  finite number, and every inactive slot has the sentinel depth.
\<close>

definition pool_ok :: "psys \<Rightarrow> bool" where
  "pool_ok s \<longleftrightarrow>
     length (particles s) = maxParticles s * 3 \<and>
     length (particleColors s) = maxParticles s * 3 \<and>
     length (velocities s) = length (active s) \<and>
     length (lifetimes s) = length (active s) \<and>
     (if maxParticles s = 0 then active s = [] \<or> active s = [True]
      else length (active s) = maxParticles s) \<and>
     None \<notin> set (velocities s) \<and>
     NaN \<notin> set (lifetimes s) \<and>
     (\<forall>i < length (active s). \<not> active s ! i \<longrightarrow> f32_get (particles s) (i * 3 + 2) = Fin (- 1000))"

text \<open>
  Two states with the same fields outside the particle arrays; what a pass of
  \<open>handleFingerInteraction index\<close> may change (\<open>touched\<close>); two states that agree on the
  entries of slot \<open>i\<close> (\<open>slot_same\<close>).
\<close>

definition same_globals :: "psys \<Rightarrow> psys \<Rightarrow> bool" where
  "same_globals s t \<longleftrightarrow>
     options t = options s \<and> maxParticles t = maxParticles s \<and>
     fingerPositions t = fingerPositions s \<and> colors_this t = colors_this s \<and>
     particleCount t = particleCount s"

definition touched :: "nat \<Rightarrow> psys \<Rightarrow> psys \<Rightarrow> bool" where
  "touched index s t \<longleftrightarrow>
     same_globals s t \<and> active t = active s \<and> particles t = particles s \<and>
     length (velocities t) = length (velocities s) \<and>
     length (lifetimes t) = length (lifetimes s) \<and>
     length (particleColors t) = length (particleColors s) \<and>
     (None \<notin> set (velocities s) \<longrightarrow> None \<notin> set (velocities t)) \<and>
     (NaN \<notin> set (lifetimes s) \<longrightarrow> NaN \<notin> set (lifetimes t)) \<and>
     (\<forall>i. i \<noteq> index \<longrightarrow> velocities t ! i = velocities s ! i \<and> lifetimes t ! i = lifetimes s ! i) \<and>
     (\<forall>n. n \<noteq> index * 3 \<longrightarrow> particleColors t ! n = particleColors s ! n)"

text \<open>
  The physics step in words: gravity is added to the \<open>y\<close> velocity, then every component
  is multiplied by the friction (\<open>damped\<close>); \<open>moved\<close> is the state of slot \<open>i\<close>, of
  lifetime \<open>l\<close> and velocity \<open>v\<close>, after decrement, damping and integration, before the
  interaction.
\<close>

definition damped :: "particle_options \<Rightarrow> vec3 \<Rightarrow> vec3" where
  "damped opts v =
     \<lparr>vec_x = jmul (vec_x v) (Fin (friction opts)),
      vec_y = jmul (jadd (vec_y v) (Fin (gravity opts))) (Fin (friction opts)),
      vec_z = jmul (vec_z v) (Fin (friction opts))\<rparr>"

definition moved :: "nat \<Rightarrow> real \<Rightarrow> vec3 \<Rightarrow> psys \<Rightarrow> psys" where
  "moved i l v s =
     s\<lparr>lifetimes := (lifetimes s)[i := Fin (l - 1)],
       velocities := (velocities s)[i := Some (damped (options s) v)],
       particles := (particles s)
         [i * 3 := jadd (particles s ! (i * 3)) (vec_x (damped (options s) v)),
          i * 3 + 1 := jadd (particles s ! (i * 3 + 1)) (vec_y (damped (options s) v)),
          i * 3 + 2 := jadd (particles s ! (i * 3 + 2)) (vec_z (damped (options s) v))]\<rparr>"

definition slot_same :: "nat \<Rightarrow> psys \<Rightarrow> psys \<Rightarrow> bool" where
  "slot_same i s t \<longleftrightarrow>
     velocities t ! i = velocities s ! i \<and> lifetimes t ! i = lifetimes s ! i \<and>
     active t ! i = active s ! i \<and>
     (\<forall>k<3. particles t ! (i * 3 + k) = particles s ! (i * 3 + k) \<and>
            particleColors t ! (i * 3 + k) = particleColors s ! (i * 3 + k))"

text \<open>What the loop of \<open>init\<close> has established when it ends.\<close>

definition init_post :: "nat \<Rightarrow> psys \<Rightarrow> rng \<times> jsnum list \<times> jsnum list \<times> psys \<Rightarrow> bool" where
  "init_post n s r \<longleftrightarrow>
     (case r of (g', pos', cols', s') \<Rightarrow>
           length pos' = n * 3 \<and> length cols' = n * 3 \<and>
           length (active s') = n \<and> length (velocities s') = n \<and> length (lifetimes s') = n \<and>
           (\<forall>b\<in>set (active s'). \<not> b) \<and> None \<notin> set (velocities s') \<and>
           NaN \<notin> set (lifetimes s') \<and> (\<forall>i<n. pos' ! (i * 3 + 2) = Fin (- 1000)) \<and>
           maxParticles s' = maxParticles s \<and> options s' = options s \<and>
           fingerPositions s' = fingerPositions s)"

text \<open>
  The states of a system built from the options \<open>opts\<close>: the state after \<open>init\<close>, and
  every state that a call of \<open>emitParticle\<close> (from any caller, with any arguments),
  \<open>update\<close>, \<open>handleFingerInteraction\<close>, \<open>reset\<close>, \<open>updateProperties\<close> or
  \<open>updateFromHandData\<close> leads to. Every draw of the random source is in \<open>[0, 1)\<close>.
\<close>

inductive reachable :: "particle_options \<Rightarrow> psys \<Rightarrow> bool" for opts :: particle_options where
  r_init: "reachable opts (snd (init (g, constructor opts)))"
| r_emit: "reachable opts s \<Longrightarrow> rng_ok g \<Longrightarrow>
     reachable opts (snd (snd (emitParticle x y z (g, s))))"
| r_update: "reachable opts s \<Longrightarrow> rng_ok g \<Longrightarrow> update dt fc (g, s) = Inr (g', s') \<Longrightarrow>
     reachable opts s'"
| r_interact: "reachable opts s \<Longrightarrow> handleFingerInteraction i s = Inr s' \<Longrightarrow> reachable opts s'"
| r_reset: "reachable opts s \<Longrightarrow> reachable opts (reset s)"
| r_properties: "reachable opts s \<Longrightarrow> reachable opts (updateProperties p s)"
| r_hands: "reachable opts s \<Longrightarrow> reachable opts (updateFromHandData hs s)"



text \<open>
  The interaction in words: the planar distance between a tip and a point, and what one
  tip within the radius \<open>R\<close> adds to the two planar velocity components of a particle at
  \<open>(px, py)\<close>: the unit vector from the particle to the tip, scaled by
  \<open>0.5 * (1 - d / R)\<close>, plus a tenth of the velocity of the hand.
\<close>

definition tip_distance :: "real \<Rightarrow> real \<Rightarrow> tip \<Rightarrow> real" where
  "tip_distance px py t = sqrt ((tip_x t - px) * (tip_x t - px) + (tip_y t - py) * (tip_y t - py))"








text \<open>
  Every tip of a snapshot with its hand and its index in the hand, in the order of the
  loops of \<open>emitParticlesFromFingers\<close>; the speed of a velocity.
\<close>

definition tip_triples :: "hand list \<Rightarrow> (hand \<times> tip \<times> nat) list" where
  "tip_triples hs =
     concat (map (\<lambda>h. map (\<lambda>p. (h, fst p, snd p)) (zip (tips h) [0..<length (tips h)])) hs)"

definition speed_of :: "real \<Rightarrow> real \<Rightarrow> real \<Rightarrow> real" where
  "speed_of a b c = sqrt (a * a + b * b + c * c)"





text \<open>
  A slot that receives no finger contact, in a way that rounding cannot undo: there is
  no snapshot, or its stored planar position is not a number, or the radius is not
  positive, or the radius is at least \<open>1e-100\<close> and every tip is farther from the stored
  position than the radius by a millionth of the radius and of the coordinates (the
  position is stored with the 24 significant bits of a \<open>Float32Array\<close> entry).
\<close>

definition clear_miss :: "real \<Rightarrow> real \<Rightarrow> real \<Rightarrow> tip \<Rightarrow> bool" where
  "clear_miss R px py t \<longleftrightarrow>
     R \<le> 0 \<or> (1 / 10 ^ 100 \<le> R \<and> R + (R + \<bar>px\<bar> + \<bar>py\<bar>) / 10 ^ 6 \<le> tip_distance px py t)"

definition out_of_reach :: "psys \<Rightarrow> nat \<Rightarrow> bool" where
  "out_of_reach s index \<longleftrightarrow>
     (case fingerPositions s of
        None \<Rightarrow> True
      | Some hands \<Rightarrow>
          (case f32_get (particles s) (index * 3) of
             NaN \<Rightarrow> True
           | Fin px \<Rightarrow>
               (case f32_get (particles s) (index * 3 + 1) of
                  NaN \<Rightarrow> True
                | Fin py \<Rightarrow>
                    \<forall>h\<in>set hands. \<forall>t\<in>set (tips h).
                       clear_miss (interactionRadius (options s)) px py t)))"


text \<open>
  The steps of claim C2 at slot \<open>i\<close>, which held lifetime \<open>l\<close> and velocity \<open>v\<close> in
  the state \<open>s\<close>, as a relation between \<open>s\<close> and a later state \<open>t\<close>. An active slot
  whose decremented lifetime is \<open>\<le> 0\<close> is inactive in \<open>t\<close> with the decremented lifetime
  and the sentinel depth; its velocity and planar position are those of \<open>s\<close> (no gravity,
  friction or integration). Any other active slot is active in \<open>t\<close>, its position has
  advanced by \<open>damped v\<close> (gravity added to \<open>y\<close>, then every component multiplied by the
  friction), and when it receives no finger contact at the new position its velocity is
  \<open>damped v\<close> and its lifetime \<open>l - 1\<close>. An inactive slot is inactive in \<open>t\<close> with the
  same lifetime and velocity.
\<close>

definition physics_step :: "nat \<Rightarrow> real \<Rightarrow> vec3 \<Rightarrow> psys \<Rightarrow> psys \<Rightarrow> bool" where
  "physics_step i l v s t \<longleftrightarrow>
     (active s ! i \<and> l - 1 \<le> 0 \<longrightarrow>
        lifetimes t ! i = Fin (l - 1) \<and> \<not> active t ! i \<and>
        velocities t ! i = Some v \<and>
        particles t ! (i * 3) = particles s ! (i * 3) \<and>
        particles t ! (i * 3 + 1) = particles s ! (i * 3 + 1) \<and>
        particles t ! (i * 3 + 2) = Fin (- 1000)) \<and>
     (active s ! i \<and> 0 < l - 1 \<longrightarrow>
        active t ! i \<and>
        particles t ! (i * 3) = jadd (particles s ! (i * 3)) (vec_x (damped (options s) v)) \<and>
        particles t ! (i * 3 + 1) = jadd (particles s ! (i * 3 + 1)) (vec_y (damped (options s) v)) \<and>
        particles t ! (i * 3 + 2) = jadd (particles s ! (i * 3 + 2)) (vec_z (damped (options s) v)) \<and>
        (out_of_reach t i \<longrightarrow>
           lifetimes t ! i = Fin (l - 1) \<and>
           velocities t ! i = Some (damped (options s) v))) \<and>
     (\<not> active s ! i \<longrightarrow>
        \<not> active t ! i \<and> lifetimes t ! i = Fin l \<and> velocities t ! i = Some v)"

section \<open>Example configurations\<close>

text \<open>
  \<open>Config.particles\<close> of config.js; a hex colour \<open>#rrggbb\<close> is read as its three
  channels over 255. The random source \<open>zero_rng\<close> returns 0 at every call, which
  \<open>Math.random()\<close> may do.
\<close>

definition Config_particles :: particle_options where
  "Config_particles =
     \<lparr>count = 1000, size' = 0.5, maxSpeed = 2.0, lifetime = 1500,
      colors = [(1, 4/15, 4/15), (4/15, 1, 4/15), (4/15, 4/15, 1), (1, 1, 4/15), (1, 4/15, 1)],
      emissionRate = 5, gravity = 0.03, friction = 0.98, bounceStrength = 0.85,
      interactionRadius = 10\<rparr>"

definition zero_rng :: rng where
  "zero_rng = (\<lambda>_. 0)"

definition no_properties :: properties where
  "no_properties =
     \<lparr>p_count = None, p_size = None, p_maxSpeed = None, p_lifetime = None, p_colors = None,
      p_emissionRate = None, p_gravity = None, p_friction = None, p_bounceStrength = None,
      p_interactionRadius = None\<rparr>"

text \<open>A pool of one slot and a pool of no slot, both after \<open>init\<close>.\<close>

definition pool1 :: psys where
  "pool1 = snd (init (zero_rng, constructor (Config_particles\<lparr>count := 1\<rparr>)))"



text \<open>
  The one-slot pool after one \<open>emitParticle(0, 0, 0)\<close>, with the configured lifetime
  and with lifetime 1.
\<close>

definition emitted1 :: psys where
  "emitted1 = snd (snd (emitParticle 0 0 0 (zero_rng, pool1)))"

definition short_lived1 :: psys where
  "short_lived1 = snd (snd (emitParticle 0 0 0
     (zero_rng, updateProperties (no_properties\<lparr>p_lifetime := Some 1\<rparr>) pool1)))"

text \<open>
  Hands with one or three tips in the plane \<open>z = 0\<close>: a curled finger and an extended
  finger at \<open>(1, 0)\<close>, an extended finger at the origin, a moving hand.
\<close>

definition tip_at :: "real \<Rightarrow> real \<Rightarrow> tip" where
  "tip_at a b = \<lparr>tip_x = a, tip_y = b, tip_z = 0\<rparr>"

definition curled_hand :: hand where
  "curled_hand = \<lparr>tips = [tip_at 1 0], fingerExtension = [False], velocity = None\<rparr>"

definition open_hand_here :: hand where
  "open_hand_here = \<lparr>tips = [tip_at 0 0], fingerExtension = [True], velocity = None\<rparr>"



text \<open>
  A one-slot pool without gravity that sees an extended finger at the origin, before and
  after the emission of frame 0; the one-slot pool with a green palette, after one
  emission.
\<close>

definition still_pool1 :: psys where
  "still_pool1 = updateFromHandData (Some [open_hand_here])
     (snd (init (zero_rng, constructor (Config_particles\<lparr>count := 1, gravity := 0\<rparr>))))"

definition still_emitted1 :: psys where
  "still_emitted1 = still_pool1\<lparr>particles := [Fin 0, Fin 0, Fin 0],
        velocities := [Some \<lparr>vec_x = Fin 0, vec_y = Fin 0, vec_z = Fin (- (1 / 10))\<rparr>],
        lifetimes := [Fin 1500], active := [True]\<rparr>"


text \<open>The one-slot pool with \<open>maxSpeed\<close> set to 0.05.\<close>

definition slow_pool1 :: psys where
  "slow_pool1 = updateProperties (no_properties\<lparr>p_maxSpeed := Some (1 / 20)\<rparr>) pool1"

section \<open>Basic facts\<close>

lemma length_f32_set [simp]: "length (f32_set xs i v) = length xs"
  by (simp add: f32_set_def)

lemma f32_get_f32_set:
  "f32_get (f32_set xs i v) j = (if j = i \<and> i < length xs then v else f32_get xs j)"
  by (simp add: f32_set_def f32_get_def)

lemma arr_set_in [simp]: "i < length xs \<Longrightarrow> arr_set h xs i v = xs[i := v]"
  by (simp add: arr_set_def)

lemma arr_set_end [simp]: "arr_set h xs (length xs) v = xs @ [v]"
  by (simp add: arr_set_def)

lemma fst_random_next [simp]: "fst (random_next g) = g 0"
  and snd_random_next [simp]: "snd (random_next g) = (\<lambda>n. g (Suc n))"
  by (simp_all add: random_next_def)

lemma rng_ok_shift: "rng_ok g \<Longrightarrow> rng_ok (\<lambda>n. g (n + k))"
  by (simp add: rng_ok_def)

lemma rng_ok_Suc: "rng_ok g \<Longrightarrow> rng_ok (\<lambda>n. g (Suc n))"
  by (simp add: rng_ok_def)

lemma getRandomColor_eq:
  "getRandomColor g s =
     (if nat \<lfloor>g 0 * real (length (colors (options s)))\<rfloor> < length (colors (options s))
      then Some (colors (options s) ! nat \<lfloor>g 0 * real (length (colors (options s)))\<rfloor>)
      else None, \<lambda>n. g (Suc n))"
  by (simp add: getRandomColor_def random_next_def Let_def)

lemma getRandomColor_options:
  "options s = options t \<Longrightarrow> fst (getRandomColor g s) = fst (getRandomColor g t)"
  by (simp add: getRandomColor_eq)

lemma snd_getRandomColor [simp]: "snd (getRandomColor g s) = (\<lambda>n. g (Suc n))"
  by (simp add: getRandomColor_eq)

lemma emitParticle_eq:
  "emitParticle x y z (g, s) =
     (let i = fst (select_slot g s); g0 = snd (select_slot g s);
          color = THREE_Color (fst (getRandomColor (\<lambda>n. g0 (n + 3)) s))
      in (None, (\<lambda>n. g0 (n + 4)),
          s\<lparr>active := arr_set False (active s) i True,
            particles := f32_set (f32_set (f32_set (particles s) (i * 3) (Fin x))
                               (i * 3 + 1) (Fin y)) (i * 3 + 2) (Fin z),
            velocities := arr_set None (velocities s) i
                    (Some \<lparr>vec_x = Fin (cos (g0 0 * pi * 2) * (g0 1 * maxSpeed (options s))),
                           vec_y = Fin (sin (g0 0 * pi * 2) * (g0 1 * maxSpeed (options s))),
                           vec_z = Fin ((g0 2 - 0.5) * 0.2)\<rparr>),
            lifetimes := arr_set NaN (lifetimes s) i (Fin (lifetime (options s))),
            particleColors :=
                    f32_set (f32_set (f32_set (particleColors s) (i * 3) (Fin (fst color)))
                               (i * 3 + 1) (Fin (fst (snd color))))
                      (i * 3 + 2) (Fin (snd (snd color)))\<rparr>))"
  apply (simp add: emitParticle_def Let_def split_def getRandomColor_eq eval_nat_numeral)
  done

lemma idx3_neq: "i \<noteq> j \<Longrightarrow> k < 3 \<Longrightarrow> m < 3 \<Longrightarrow> i * 3 + k \<noteq> j * 3 + (m::nat)"
  by arith

lemma length_arr_set: "length (arr_set h xs i v) = (if i < length xs then length xs else Suc i)"
  by (simp add: arr_set_def)

lemma set_arr_set_le: "i \<le> length xs \<Longrightarrow> set (arr_set h xs i v) \<subseteq> insert v (set xs)"
  by (auto simp: arr_set_def dest: subsetD [OF set_update_subset_insert])

text \<open>What one tip does to the system, when the slot's velocity object exists.\<close>

lemma interact_tip_cases:
  assumes "obj_get (velocities s) index = Some v"
  shows "interact_tip index px py h t s = Inr s \<or>
         (\<exists>v' c l. interact_tip index px py h t s =
            Inr (s\<lparr>velocities := (velocities s)[index := Some v'],
                   particleColors := f32_set (particleColors s) (index * 3) c,
                   lifetimes := arr_set NaN (lifetimes s) index
                              (jadd (arr_get (lifetimes s) index) (Fin 5))\<rparr>))"
  using assms by (auto simp: interact_tip_def Let_def)

lemma touched_refl [simp]: "touched index s s"
  by (simp add: touched_def same_globals_def)

lemma touched_trans: "touched index s t \<Longrightarrow> touched index t u \<Longrightarrow> touched index s u"
  by (auto simp: touched_def same_globals_def)

lemma jadd_Fin_neq_NaN: "a \<noteq> NaN \<Longrightarrow> jadd a (Fin b) \<noteq> NaN"
  by (cases a) auto

lemma interact_tip_touched:
  assumes "index < length (velocities s)" "length (lifetimes s) = length (velocities s)"
    and "None \<notin> set (velocities s)"
  shows "\<exists>s'. interact_tip index px py h t s = Inr s' \<and> touched index s s'"
proof -
  from assms obtain v where v: "obj_get (velocities s) index = Some v"
    by (cases "velocities s ! index") (auto simp: obj_get_def dest: nth_mem)
  from interact_tip_cases [OF v, of px py h t]
  show ?thesis
  proof
    assume "interact_tip index px py h t s = Inr s"
    then show ?thesis by simp
  next
    assume "\<exists>v' c l. interact_tip index px py h t s =
            Inr (s\<lparr>velocities := (velocities s)[index := Some v'],
                   particleColors := f32_set (particleColors s) (index * 3) c,
                   lifetimes := arr_set NaN (lifetimes s) index
                              (jadd (arr_get (lifetimes s) index) (Fin 5))\<rparr>)"
    then obtain v' c where e: "interact_tip index px py h t s =
            Inr (s\<lparr>velocities := (velocities s)[index := Some v'],
                   particleColors := f32_set (particleColors s) (index * 3) c,
                   lifetimes := arr_set NaN (lifetimes s) index
                              (jadd (arr_get (lifetimes s) index) (Fin 5))\<rparr>)" by blast
    have l: "index < length (lifetimes s)" using assms by simp
    have n1: "None \<notin> set ((velocities s)[index := Some v'])"
      using assms(3) by (auto dest: subsetD [OF set_update_subset_insert])
    have n2: "NaN \<notin> set (lifetimes s) \<Longrightarrow>
        NaN \<notin> set ((lifetimes s)[index := jadd (arr_get (lifetimes s) index) (Fin 5)])"
    proof -
      assume a: "NaN \<notin> set (lifetimes s)"
      then have "arr_get (lifetimes s) index \<noteq> NaN"
        using l by (auto simp: arr_get_def dest: nth_mem)
      then have "jadd (arr_get (lifetimes s) index) (Fin 5) \<noteq> NaN" by (rule jadd_Fin_neq_NaN)
      with a show ?thesis by (auto dest!: subsetD [OF set_update_subset_insert])
    qed
    show ?thesis
      unfolding e using l n1 n2
      by (auto simp: touched_def same_globals_def f32_set_def)
  qed
qed

lemma interact_tips_touched:
  assumes "index < length (velocities s)" "length (lifetimes s) = length (velocities s)"
    and "None \<notin> set (velocities s)"
  shows "\<exists>s'. interact_tips index px py h ts s = Inr s' \<and> touched index s s'"
  using assms
proof (induction ts arbitrary: s)
  case Nil
  then show ?case by simp
next
  case (Cons t ts)
  from interact_tip_touched [OF Cons.prems, of px py h t]
  obtain s1 where s1: "interact_tip index px py h t s = Inr s1" "touched index s s1" by blast
  then have p: "index < length (velocities s1)" "length (lifetimes s1) = length (velocities s1)"
    "None \<notin> set (velocities s1)"
    using Cons.prems by (auto simp: touched_def)
  from Cons.IH [OF p] obtain s2 where "interact_tips index px py h ts s1 = Inr s2"
    "touched index s1 s2" by blast
  with s1 show ?case by (auto intro: touched_trans)
qed

lemma interact_hands_touched:
  assumes "index < length (velocities s)" "length (lifetimes s) = length (velocities s)"
    and "None \<notin> set (velocities s)"
  shows "\<exists>s'. interact_hands index px py hs s = Inr s' \<and> touched index s s'"
  using assms
proof (induction hs arbitrary: s)
  case Nil
  then show ?case by simp
next
  case (Cons h hs)
  from interact_tips_touched [OF Cons.prems, of px py h "tips h"]
  obtain s1 where s1: "interact_tips index px py h (tips h) s = Inr s1" "touched index s s1"
    by blast
  then have p: "index < length (velocities s1)" "length (lifetimes s1) = length (velocities s1)"
    "None \<notin> set (velocities s1)"
    using Cons.prems by (auto simp: touched_def)
  from Cons.IH [OF p] obtain s2 where "interact_hands index px py hs s1 = Inr s2"
    "touched index s1 s2" by blast
  with s1 show ?case by (auto intro: touched_trans)
qed

lemma interact_tip_NaN [simp]: "interact_tip index NaN py h t s = Inr s"
  by (simp add: interact_tip_def)

lemma interact_tips_NaN [simp]: "interact_tips index NaN py h ts s = Inr s"
  by (induction ts) auto

lemma interact_hands_NaN [simp]: "interact_hands index NaN py hs s = Inr s"
  by (induction hs) auto

lemma handleFingerInteraction_touched:
  assumes "pool_ok s"
  shows "\<exists>s'. handleFingerInteraction index s = Inr s' \<and> touched index s s'"
proof (cases "index < maxParticles s")
  case True
  with assms have "index < length (velocities s)" "length (lifetimes s) = length (velocities s)"
    "None \<notin> set (velocities s)"
    by (auto simp: pool_ok_def split: if_splits)
  from interact_hands_touched [OF this]
  show ?thesis by (auto simp: handleFingerInteraction_def split: option.splits)
next
  case False
  with assms have "f32_get (particles s) (index * 3) = NaN"
    by (auto simp: pool_ok_def f32_get_def)
  then show ?thesis by (auto simp: handleFingerInteraction_def split: option.splits)
qed

lemma touched_pool_ok: "pool_ok s \<Longrightarrow> touched index s t \<Longrightarrow> pool_ok t"
  by (auto simp: pool_ok_def touched_def same_globals_def)

lemma f32_set_in: "i < length xs \<Longrightarrow> f32_set xs i v = xs[i := v]"
  by (simp add: f32_set_def)

lemma f32_get_in: "i < length xs \<Longrightarrow> f32_get xs i = xs ! i"
  by (simp add: f32_get_def)

lemma arr_get_in: "i < length xs \<Longrightarrow> arr_get xs i = xs ! i"
  by (simp add: arr_get_def)

lemma obj_get_in: "i < length xs \<Longrightarrow> obj_get xs i = xs ! i"
  by (simp add: obj_get_def)

lemma flag_get_in: "i < length xs \<Longrightarrow> flag_get xs i = xs ! i"
  by (simp add: flag_get_def)

lemma notin_set_update: "a \<notin> set xs \<Longrightarrow> v \<noteq> a \<Longrightarrow> a \<notin> set (xs[i := v])"
  by (auto dest: subsetD [OF set_update_subset_insert])

lemma pool_ok_lifetime:
  "pool_ok s \<Longrightarrow> l \<noteq> NaN \<Longrightarrow> pool_ok (s\<lparr>lifetimes := (lifetimes s)[i := l]\<rparr>)"
  by (auto simp: pool_ok_def dest: subsetD [OF set_update_subset_insert])

lemma pool_ok_velocity:
  "pool_ok s \<Longrightarrow> pool_ok (s\<lparr>velocities := (velocities s)[i := Some v]\<rparr>)"
  by (auto simp: pool_ok_def dest: subsetD [OF set_update_subset_insert])

lemma pool_ok_colors:
  "pool_ok s \<Longrightarrow> length c = length (particleColors s) \<Longrightarrow> pool_ok (s\<lparr>particleColors := c\<rparr>)"
  by (auto simp: pool_ok_def)

lemma pool_ok_deactivate:
  assumes "pool_ok s" "i < maxParticles s"
  shows "pool_ok (s\<lparr>active := (active s)[i := False],
                   particles := (particles s)[i * 3 + 2 := Fin (- 1000)]\<rparr>)"
proof -
  have "\<And>j. j < maxParticles s \<Longrightarrow> j \<noteq> i \<Longrightarrow> j * 3 + 2 \<noteq> i * 3 + 2" by arith
  then show ?thesis
    using assms by (auto simp: pool_ok_def f32_get_def nth_list_update split: if_splits)
qed

lemma pool_ok_move:
  assumes "pool_ok s" "i < maxParticles s" "active s ! i"
  shows "pool_ok (s\<lparr>particles := (particles s)[i * 3 := a, i * 3 + 1 := b, i * 3 + 2 := c]\<rparr>)"
proof -
  have "\<And>j. j \<noteq> i \<Longrightarrow> j * 3 + 2 \<noteq> i * 3 \<and> j * 3 + 2 \<noteq> i * 3 + 1 \<and> j * 3 + 2 \<noteq> i * 3 + 2"
    by arith
  then show ?thesis
    using assms by (auto simp: pool_ok_def f32_get_def nth_list_update split: if_splits)
qed

lemma pool_ok_activate:
  assumes "pool_ok s" "i < maxParticles s"
  shows "pool_ok (s\<lparr>active := (active s)[i := True],
                   particles := (particles s)[i * 3 := a, i * 3 + 1 := b, i * 3 + 2 := c]\<rparr>)"
proof -
  have "\<And>j. j \<noteq> i \<Longrightarrow> j * 3 + 2 \<noteq> i * 3 \<and> j * 3 + 2 \<noteq> i * 3 + 1 \<and> j * 3 + 2 \<noteq> i * 3 + 2"
    by arith
  then show ?thesis
    using assms by (auto simp: pool_ok_def f32_get_def nth_list_update split: if_splits)
qed

lemma pool_ok_slot:
  assumes "pool_ok s" "i < maxParticles s"
  shows "i < length (active s)" "i < length (lifetimes s)" "i < length (velocities s)"
    "i * 3 + 2 < length (particles s)" "i * 3 + 1 < length (particles s)"
    "i * 3 < length (particles s)" "i * 3 < length (particleColors s)"
    "i * 3 + 1 < length (particleColors s)" "i * 3 + 2 < length (particleColors s)"
    "\<exists>l. lifetimes s ! i = Fin l" "\<exists>v. velocities s ! i = Some v"
proof -
  show a: "i < length (active s)" "i < length (lifetimes s)" "i < length (velocities s)"
    "i * 3 + 2 < length (particles s)" "i * 3 + 1 < length (particles s)"
    "i * 3 < length (particles s)" "i * 3 < length (particleColors s)"
    "i * 3 + 1 < length (particleColors s)" "i * 3 + 2 < length (particleColors s)"
    using assms by (auto simp: pool_ok_def split: if_splits)
  have "lifetimes s ! i \<in> set (lifetimes s)" using a(2) by simp
  moreover have "NaN \<notin> set (lifetimes s)" using assms(1) by (simp add: pool_ok_def)
  ultimately have "lifetimes s ! i \<noteq> NaN" by metis
  then show "\<exists>l. lifetimes s ! i = Fin l" by (cases "lifetimes s ! i") auto
  have "velocities s ! i \<in> set (velocities s)" using a(3) by simp
  moreover have "None \<notin> set (velocities s)" using assms(1) by (simp add: pool_ok_def)
  ultimately have "velocities s ! i \<noteq> None" by metis
  then show "\<exists>v. velocities s ! i = Some v" by auto
qed

text \<open>The three branches of the loop body of \<open>update\<close>.\<close>

lemma update_slot_inactive:
  "\<not> flag_get (active s) i \<Longrightarrow> update_slot i (c, s) = Inr (c, s)"
  by (simp add: update_slot_def)

lemma update_slot_expired:
  assumes "pool_ok s" "i < maxParticles s" "active s ! i" "lifetimes s ! i = Fin l" "l - 1 \<le> 0"
  shows "update_slot i (c, s) =
     Inr (c + 1, s\<lparr>lifetimes := (lifetimes s)[i := Fin (l - 1)],
                    active := (active s)[i := False],
                    particles := (particles s)[i * 3 + 2 := Fin (- 1000)]\<rparr>)"
  using assms pool_ok_slot [OF assms(1,2)]
  by (simp add: update_slot_def flag_get_in arr_get_in f32_set_in)

lemma vec3_all_updates:
  "(v::vec3)\<lparr>vec_x := a, vec_y := b, vec_z := c\<rparr> = \<lparr>vec_x = a, vec_y = b, vec_z = c\<rparr>"
  by (cases v) simp

lemma update_slot_alive:
  assumes "pool_ok s" "i < maxParticles s" "active s ! i" "lifetimes s ! i = Fin l" "0 < l - 1"
    "velocities s ! i = Some v"
  shows "update_slot i (c, s) =
     (case handleFingerInteraction i (moved i l v s) of
        Inl e \<Rightarrow> Inl e | Inr s4 \<Rightarrow> Inr (c + 1, s4))"
  using assms pool_ok_slot [OF assms(1,2)]
  by (simp add: update_slot_def flag_get_in arr_get_in f32_set_in f32_get_in obj_get_in Let_def
      moved_def damped_def vec3_all_updates)

lemma pool_ok_moved:
  assumes "pool_ok s" "i < maxParticles s" "active s ! i"
  shows "pool_ok (moved i l v s)"
proof -
  have "pool_ok (s\<lparr>lifetimes := (lifetimes s)[i := Fin (l - 1)]\<rparr>)"
    by (rule pool_ok_lifetime [OF assms(1)]) simp
  from pool_ok_velocity [OF this, of i "damped (options s) v"]
  have "pool_ok (s\<lparr>lifetimes := (lifetimes s)[i := Fin (l - 1)],
      velocities := (velocities s)[i := Some (damped (options s) v)]\<rparr>)" by simp
  from pool_ok_move [OF this] assms(2,3)
  show ?thesis by (simp add: moved_def)
qed

lemma slot_same_refl [simp]: "slot_same i s s"
  by (simp add: slot_same_def)

lemma slot_same_trans: "slot_same i s t \<Longrightarrow> slot_same i t u \<Longrightarrow> slot_same i s u"
  by (simp add: slot_same_def)

lemma same_globals_refl [simp]: "same_globals s s"
  by (simp add: same_globals_def)

lemma same_globals_trans: "same_globals s t \<Longrightarrow> same_globals t u \<Longrightarrow> same_globals s u"
  by (simp add: same_globals_def)

lemma touched_slot_same: "touched j s t \<Longrightarrow> i \<noteq> j \<Longrightarrow> slot_same i s t"
proof -
  assume t: "touched j s t" and ij: "i \<noteq> j"
  have "\<And>k. k < 3 \<Longrightarrow> i * 3 + k \<noteq> j * 3" using ij by arith
  with t ij show ?thesis by (simp add: touched_def slot_same_def)
qed

lemma moved_slot_same: "i \<noteq> j \<Longrightarrow> slot_same i s (moved j l v s)"
proof -
  assume ij: "i \<noteq> j"
  have "\<And>k. k < 3 \<Longrightarrow> i * 3 + k \<noteq> j * 3 \<and> i * 3 + k \<noteq> j * 3 + 1 \<and> i * 3 + k \<noteq> j * 3 + 2"
    using ij by arith
  with ij show ?thesis by (simp add: moved_def slot_same_def)
qed

lemma same_globals_moved [simp]: "same_globals s (moved j l v s)"
  by (simp add: moved_def same_globals_def)

lemma update_slot_step:
  assumes ok: "pool_ok s" and j: "j < maxParticles s"
  shows "\<exists>c' s'. update_slot j (c, s) = Inr (c', s') \<and> pool_ok s' \<and> same_globals s s' \<and>
           (\<forall>i. i \<noteq> j \<longrightarrow> slot_same i s s')"
proof (cases "active s ! j")
  case False
  with pool_ok_slot(1) [OF ok j] have "\<not> flag_get (active s) j" by (simp add: flag_get_def)
  from update_slot_inactive [OF this] ok show ?thesis by simp
next
  case True
  from pool_ok_slot [OF ok j] obtain l v where
    l: "lifetimes s ! j = Fin l" and v: "velocities s ! j = Some v" by blast
  show ?thesis
  proof (cases "l - 1 \<le> 0")
    case True
    let ?s' = "s\<lparr>lifetimes := (lifetimes s)[j := Fin (l - 1)],
                 active := (active s)[j := False],
                 particles := (particles s)[j * 3 + 2 := Fin (- 1000)]\<rparr>"
    have e: "update_slot j (c, s) = Inr (c + 1, ?s')"
      by (rule update_slot_expired [OF ok j \<open>active s ! j\<close> l True])
    have "pool_ok (s\<lparr>lifetimes := (lifetimes s)[j := Fin (l - 1)]\<rparr>)"
      by (rule pool_ok_lifetime [OF ok]) simp
    from pool_ok_deactivate [OF this, of j] j have p: "pool_ok ?s'" by simp
    have g: "same_globals s ?s'" by (simp add: same_globals_def)
    have "\<And>i k. i \<noteq> j \<Longrightarrow> k < 3 \<Longrightarrow> i * 3 + k \<noteq> j * 3 + 2" by arith
    then have "\<forall>i. i \<noteq> j \<longrightarrow> slot_same i s ?s'" by (simp add: slot_same_def)
    with e p g show ?thesis by blast
  next
    case False
    then have pos: "0 < l - 1" by simp
    have e: "update_slot j (c, s) =
       (case handleFingerInteraction j (moved j l v s) of
          Inl e \<Rightarrow> Inl e | Inr s4 \<Rightarrow> Inr (c + 1, s4))"
      by (rule update_slot_alive [OF ok j \<open>active s ! j\<close> l pos v])
    have pm: "pool_ok (moved j l v s)" by (rule pool_ok_moved [OF ok j \<open>active s ! j\<close>])
    from handleFingerInteraction_touched [OF pm, of j] obtain s4 where
      h: "handleFingerInteraction j (moved j l v s) = Inr s4" and t: "touched j (moved j l v s) s4"
      by blast
    have p: "pool_ok s4" by (rule touched_pool_ok [OF pm t])
    have g: "same_globals s s4"
      using t by (auto simp: touched_def intro: same_globals_trans [OF same_globals_moved])
    have "\<forall>i. i \<noteq> j \<longrightarrow> slot_same i s s4"
      using t by (auto intro: slot_same_trans [OF moved_slot_same touched_slot_same])
    with e h p g show ?thesis by simp
  qed
qed

lemma update_slots_append:
  "update_slots (xs @ ys) a =
     (case update_slots xs a of Inl e \<Rightarrow> Inl e | Inr b \<Rightarrow> update_slots ys b)"
  by (induction xs arbitrary: a) (auto split: sum.splits)

lemma update_slots_steps:
  assumes "pool_ok s" "\<forall>j\<in>set js. j < maxParticles s"
  shows "\<exists>c' s'. update_slots js (c, s) = Inr (c', s') \<and> pool_ok s' \<and> same_globals s s' \<and>
           (\<forall>i. i \<notin> set js \<longrightarrow> slot_same i s s')"
  using assms
proof (induction js arbitrary: c s)
  case Nil
  then show ?case by simp
next
  case (Cons j js)
  from Cons.prems have j: "j < maxParticles s" by simp
  from update_slot_step [OF Cons.prems(1) j, of c] obtain c1 s1 where
    s1: "update_slot j (c, s) = Inr (c1, s1)" "pool_ok s1" "same_globals s s1"
    "\<forall>i. i \<noteq> j \<longrightarrow> slot_same i s s1" by blast
  have "\<forall>j\<in>set js. j < maxParticles s1"
    using Cons.prems(2) s1(3) by (simp add: same_globals_def)
  from Cons.IH [OF s1(2) this, of c1] obtain c2 s2 where
    s2: "update_slots js (c1, s1) = Inr (c2, s2)" "pool_ok s2" "same_globals s1 s2"
    "\<forall>i. i \<notin> set js \<longrightarrow> slot_same i s1 s2" by blast
  have "\<forall>i. i \<notin> set (j # js) \<longrightarrow> slot_same i s s2"
    using s1(4) s2(4) by (auto intro: slot_same_trans)
  with s1 s2 show ?case by (auto intro: same_globals_trans)
qed

lemma update_particles_total:
  assumes "pool_ok s"
  shows "\<exists>c s'. update_particles s = Inr (c, s') \<and> pool_ok s' \<and> same_globals s s'"
  using update_slots_steps [OF assms, of "[0..<maxParticles s]" 0]
  by (auto simp: update_particles_def)

text \<open>
  The particle pass seen from one slot: the iterations before and after \<open>i\<close> leave the
  slot as it is, so the pass does to slot \<open>i\<close> what the loop body does at \<open>i\<close>.
\<close>

lemma update_particles_at:
  assumes ok: "pool_ok s" and i: "i < maxParticles s"
  shows "\<exists>c s' ca sa cb sb.
           update_particles s = Inr (c, s') \<and> pool_ok s' \<and> same_globals s s' \<and>
           pool_ok sa \<and> same_globals s sa \<and> slot_same i s sa \<and>
           update_slot i (ca, sa) = Inr (cb, sb) \<and> slot_same i sb s'"
proof -
  have split: "[0..<maxParticles s] = [0..<i] @ i # [Suc i..<maxParticles s]"
    using i by (metis le0 upt_add_eq_append upt_conv_Cons less_imp_add_positive
        add.commute le_add2 less_imp_le_nat le_add_diff_inverse)
  from update_slots_steps [OF ok, of "[0..<i]" 0] i obtain ca sa where
    a: "update_slots [0..<i] (0, s) = Inr (ca, sa)" "pool_ok sa" "same_globals s sa"
    "slot_same i s sa" by auto
  have ia: "i < maxParticles sa" using a(3) i by (simp add: same_globals_def)
  from update_slot_step [OF a(2) ia, of ca] obtain cb sb where
    b: "update_slot i (ca, sa) = Inr (cb, sb)" "pool_ok sb" "same_globals sa sb" by blast
  have "\<forall>j\<in>set [Suc i..<maxParticles s]. j < maxParticles sb"
    using a(3) b(3) by (simp add: same_globals_def)
  from update_slots_steps [OF b(2) this, of cb] obtain c s' where
    c: "update_slots [Suc i..<maxParticles s] (cb, sb) = Inr (c, s')" "pool_ok s'"
    "same_globals sb s'" "slot_same i sb s'" by auto
  have "update_particles s = Inr (c, s')"
    by (simp add: update_particles_def split update_slots_append a(1) b(1) c(1))
  moreover have "same_globals s s'"
    using a(3) b(3) c(3) by (blast intro: same_globals_trans)
  ultimately show ?thesis using a b c by blast
qed

lemma floor_draw_less:
  assumes "0 \<le> r" "r < 1" "0 < n"
  shows "nat \<lfloor>r * real n\<rfloor> < n"
proof -
  have "r * real n < real n" using assms by simp
  then have "\<lfloor>r * real n\<rfloor> < int n" by (simp add: floor_less_iff)
  then show ?thesis using assms by linarith
qed

lemma select_slot_found:
  assumes "find (\<lambda>i. \<not> flag_get (active s) i) [0..<maxParticles s] = Some i"
  shows "select_slot g s = (i, g)" "i < maxParticles s" "\<not> flag_get (active s) i"
    "\<forall>j<i. flag_get (active s) j"
proof -
  show "select_slot g s = (i, g)" using assms by (simp add: select_slot_def)
  from assms obtain k where k: "k < length [0..<maxParticles s]"
    "\<not> flag_get (active s) ([0..<maxParticles s] ! k)" "i = [0..<maxParticles s] ! k"
    "\<forall>j<k. \<not> \<not> flag_get (active s) ([0..<maxParticles s] ! j)"
    unfolding find_Some_iff by blast
  then have ik: "i = k" by simp
  show "i < maxParticles s" using k ik by simp
  show "\<not> flag_get (active s) i" using k ik by simp
  show "\<forall>j<i. flag_get (active s) j" using k ik by auto
qed

lemma select_slot_saturated:
  assumes "find (\<lambda>i. \<not> flag_get (active s) i) [0..<maxParticles s] = None"
  shows "select_slot g s = (nat \<lfloor>g 0 * real (maxParticles s)\<rfloor>, \<lambda>n. g (Suc n))"
    "\<forall>j<maxParticles s. flag_get (active s) j"
proof -
  show "select_slot g s = (nat \<lfloor>g 0 * real (maxParticles s)\<rfloor>, \<lambda>n. g (Suc n))"
    by (simp add: select_slot_def assms random_next_def)
  show "\<forall>j<maxParticles s. flag_get (active s) j"
    using assms by (auto simp: find_None_iff)
qed

lemma select_slot_bound:
  assumes "rng_ok g" "0 < maxParticles s"
  shows "fst (select_slot g s) < maxParticles s"
proof (cases "find (\<lambda>i. \<not> flag_get (active s) i) [0..<maxParticles s]")
  case None
  from assms(1) have "0 \<le> g 0" "g 0 < 1" by (auto simp: rng_ok_def)
  from floor_draw_less [OF this assms(2)] select_slot_saturated(1) [OF None, of g]
  show ?thesis by simp
next
  case (Some i)
  from select_slot_found(1) [OF Some, of g] select_slot_found(2) [OF Some]
  show ?thesis by simp
qed

lemma select_slot_empty: "maxParticles s = 0 \<Longrightarrow> fst (select_slot g s) = 0"
  by (simp add: select_slot_def random_next_def)

lemma select_slot_rng: "rng_ok g \<Longrightarrow> rng_ok (snd (select_slot g s))"
  by (cases "find (\<lambda>i. \<not> flag_get (active s) i) [0..<maxParticles s]")
     (auto simp: select_slot_def random_next_def rng_ok_def)

lemma emitParticle_globals: "same_globals s (snd (snd (emitParticle x y z (g, s))))"
  by (simp add: emitParticle_eq Let_def same_globals_def)

lemma emitParticle_rng: "rng_ok g \<Longrightarrow> rng_ok (fst (snd (emitParticle x y z (g, s))))"
  using select_slot_rng [of g s] by (simp add: emitParticle_eq Let_def rng_ok_def)

lemma pool_ok_assign:
  assumes "pool_ok s" "i < maxParticles s" "l \<noteq> NaN" "length cs = length (particleColors s)"
  shows "pool_ok (s\<lparr>active := (active s)[i := True],
                   particles := (particles s)[i * 3 := a, Suc (i * 3) := b, Suc (Suc (i * 3)) := c],
                   velocities := (velocities s)[i := Some v],
                   lifetimes := (lifetimes s)[i := l],
                   particleColors := cs\<rparr>)"
proof -
  have "\<And>j. j \<noteq> i \<Longrightarrow> j * 3 + 2 \<noteq> i * 3 \<and> j * 3 + 2 \<noteq> Suc (i * 3) \<and> j * 3 + 2 \<noteq> Suc (Suc (i * 3))"
    by arith
  then show ?thesis
    using assms
    by (auto simp: pool_ok_def f32_get_def nth_list_update split: if_splits
        dest: subsetD [OF set_update_subset_insert])
qed

lemma emitParticle_pool_ok:
  assumes ok: "pool_ok s" and g: "rng_ok g"
  shows "pool_ok (snd (snd (emitParticle x y z (g, s))))"
proof (cases "maxParticles s = 0")
  case True
  then have i: "fst (select_slot g s) = 0" by (rule select_slot_empty)
  from ok True have "active s = [] \<or> active s = [True]" by (simp add: pool_ok_def)
  then show ?thesis
  proof
    assume a: "active s = []"
    with ok have "velocities s = []" "lifetimes s = []" "particles s = []" "particleColors s = []"
      using True by (auto simp: pool_ok_def)
    with a True ok show ?thesis
      by (simp add: emitParticle_eq Let_def i pool_ok_def f32_set_def arr_set_def)
  next
    assume a: "active s = [True]"
    with ok have l: "length (velocities s) = 1" "length (lifetimes s) = 1" "particles s = []"
      "particleColors s = []"
      using True by (auto simp: pool_ok_def)
    then obtain v l where "velocities s = [v]" "lifetimes s = [l]"
      by (auto simp: length_Suc_conv)
    with a l True ok show ?thesis
      by (simp add: emitParticle_eq Let_def i pool_ok_def f32_set_def arr_set_def)
  qed
next
  case False
  then have n: "0 < maxParticles s" by simp
  let ?i = "fst (select_slot g s)"
  have i: "?i < maxParticles s" by (rule select_slot_bound [OF g n])
  note sl = pool_ok_slot [OF ok i]
  show ?thesis
    using sl by (simp add: emitParticle_eq Let_def f32_set_in pool_ok_assign [OF ok i])
qed

lemma emit_times_ok:
  "pool_ok (snd a) \<Longrightarrow> rng_ok (fst a) \<Longrightarrow>
   pool_ok (snd (emit_times n t a)) \<and> rng_ok (fst (emit_times n t a)) \<and>
   same_globals (snd a) (snd (emit_times n t a))"
proof (induction n arbitrary: a)
  case 0
  then show ?case by simp
next
  case (Suc n)
  obtain g s where a: "a = (g, s)" by (cases a)
  let ?b = "snd (emitParticle (tip_x t) (tip_y t) 0 (g, s))"
  have "pool_ok (snd ?b)" "rng_ok (fst ?b)" "same_globals s (snd ?b)"
    using Suc.prems a by (simp_all add: emitParticle_pool_ok emitParticle_rng emitParticle_globals)
  with Suc.IH [of ?b] show ?case by (auto simp: a intro: same_globals_trans)
qed

lemma emit_tip_ok:
  assumes "pool_ok (snd a)" "rng_ok (fst a)"
  shows "pool_ok (snd (emit_tip h t k a)) \<and> rng_ok (fst (emit_tip h t k a)) \<and>
   same_globals (snd a) (snd (emit_tip h t k a))"
proof -
  obtain g s where a: "a = (g, s)" by (cases a)
  have "rng_ok (\<lambda>n. g (Suc n))" using assms a by (simp add: rng_ok_def)
  with emit_times_ok [of "(\<lambda>n. g (Suc n), s)"] assms a
  show ?thesis by (simp add: emit_tip_def random_next_def)
qed

lemma emit_tips_ok:
  "pool_ok (snd a) \<Longrightarrow> rng_ok (fst a) \<Longrightarrow>
   pool_ok (snd (emit_tips h ts k a)) \<and> rng_ok (fst (emit_tips h ts k a)) \<and>
   same_globals (snd a) (snd (emit_tips h ts k a))"
proof (induction ts arbitrary: k a)
  case Nil
  then show ?case by simp
next
  case (Cons t ts)
  from emit_tip_ok [OF Cons.prems, of h t k] Cons.IH [of "emit_tip h t k a" "Suc k"]
  show ?case by (auto intro: same_globals_trans)
qed

lemma emit_hands_ok:
  "pool_ok (snd a) \<Longrightarrow> rng_ok (fst a) \<Longrightarrow>
   pool_ok (snd (emit_hands hs a)) \<and> rng_ok (fst (emit_hands hs a)) \<and>
   same_globals (snd a) (snd (emit_hands hs a))"
proof (induction hs arbitrary: a)
  case Nil
  then show ?case by simp
next
  case (Cons h hs)
  from emit_tips_ok [OF Cons.prems, of h "tips h" 0] Cons.IH [of "emit_tips h (tips h) 0 a"]
  show ?case by (auto intro: same_globals_trans)
qed

lemma emitParticlesFromFingers_ok:
  assumes "pool_ok (snd a)" "rng_ok (fst a)"
  shows "pool_ok (snd (emitParticlesFromFingers a)) \<and>
   rng_ok (fst (emitParticlesFromFingers a)) \<and>
   same_globals (snd a) (snd (emitParticlesFromFingers a))"
  using assms emit_hands_ok [OF assms]
  by (auto simp: emitParticlesFromFingers_def split: option.splits)

lemma pool_ok_particleCount: "pool_ok s \<Longrightarrow> pool_ok (s\<lparr>particleCount := n\<rparr>)"
  by (simp add: pool_ok_def)

lemma update_ok:
  assumes ok: "pool_ok s" and g: "rng_ok g"
  shows "\<exists>g' s'. update dt fc (g, s) = Inr (g', s') \<and> pool_ok s' \<and> rng_ok g' \<and>
           maxParticles s' = maxParticles s \<and> options s' = options s \<and>
           fingerPositions s' = fingerPositions s"
proof -
  from update_particles_total [OF ok] obtain c s1 where
    1: "update_particles s = Inr (c, s1)" "pool_ok s1" "same_globals s s1" by blast
  from emitParticlesFromFingers_ok [of "(g, s1)"] 1(2) g
  have 2: "pool_ok (snd (emitParticlesFromFingers (g, s1)))"
    "rng_ok (fst (emitParticlesFromFingers (g, s1)))"
    "same_globals s1 (snd (emitParticlesFromFingers (g, s1)))" by simp_all
  show ?thesis
    using 1 2 g
    by (auto simp: update_def Let_def split_def same_globals_def pool_ok_particleCount)
qed

lemma init_loop_inv:
  assumes "length pos = n * 3" "length cols = n * 3"
    "length (active s) = k" "length (velocities s) = k" "length (lifetimes s) = k"
    "\<forall>b\<in>set (active s). \<not> b" "None \<notin> set (velocities s)" "NaN \<notin> set (lifetimes s)"
    "\<forall>i<k. pos ! (i * 3 + 2) = Fin (- 1000)" "k \<le> n"
  shows "init_post n s (init_loop [k..<n] (g, pos, cols, s))"
  using assms
proof (induction "n - k" arbitrary: k g pos cols s)
  case 0
  then show ?case by (simp add: init_post_def)
next
  case (Suc m)
  then have kn: "k < n" by simp
  then have up: "[k..<n] = k # [Suc k..<n]" by (rule upt_conv_Cons)
  let ?pos = "pos[k * 3 := Fin 0, k * 3 + 1 := Fin 0, k * 3 + 2 := Fin (- 1000)]"
  let ?c = "THREE_Color (fst (getRandomColor g s))"
  let ?cols = "cols[k * 3 := Fin (fst ?c), k * 3 + 1 := Fin (fst (snd ?c)),
                    k * 3 + 2 := Fin (snd (snd ?c))]"
  let ?s = "s\<lparr>velocities := velocities s @ [Some \<lparr>vec_x = Fin 0, vec_y = Fin 0, vec_z = Fin 0\<rparr>],
                lifetimes := lifetimes s @ [Fin 0],
                active := active s @ [False],
                colors_this := colors_this s @ [?c]\<rparr>"
  have in_range: "k * 3 + 2 < length pos" "k * 3 + 2 < length cols"
    using kn Suc.prems(1,2) by simp_all
  have step: "init_loop [k..<n] (g, pos, cols, s) =
      init_loop [Suc k..<n] (\<lambda>n. g (Suc n), ?pos, ?cols, ?s)"
    using in_range by (simp add: up Let_def split_def f32_set_def)
  have sent: "\<forall>i<Suc k. ?pos ! (i * 3 + 2) = Fin (- 1000)"
  proof (intro allI impI)
    fix i assume "i < Suc k"
    then consider "i = k" | "i < k" by linarith
    then show "?pos ! (i * 3 + 2) = Fin (- 1000)"
    proof cases
      case 1
      then show ?thesis using in_range by simp
    next
      case 2
      then have "i * 3 + 2 \<noteq> k * 3" "i * 3 + 2 \<noteq> k * 3 + 1" "i * 3 + 2 \<noteq> k * 3 + 2"
        by arith+
      then show ?thesis using Suc.prems(9) 2 by simp
    qed
  qed
  have "init_post n ?s (init_loop [Suc k..<n] (\<lambda>n. g (Suc n), ?pos, ?cols, ?s))"
  proof (rule Suc.hyps(1))
    show "m = n - Suc k" using Suc.hyps(2) by simp
    show "\<forall>i<Suc k. ?pos ! (i * 3 + 2) = Fin (- 1000)" by (rule sent)
  qed (use Suc.prems kn in simp_all)
  then show ?case unfolding step init_post_def by simp
qed

lemma init_ok:
  "pool_ok (snd (init (g, constructor opts))) \<and>
   maxParticles (snd (init (g, constructor opts))) = count opts \<and>
   options (snd (init (g, constructor opts))) = opts \<and>
   (\<forall>b\<in>set (active (snd (init (g, constructor opts)))). \<not> b)"
proof -
  let ?s = "constructor opts"
  let ?n = "count opts"
  have "init_post ?n ?s
     (init_loop [0..<?n] (g, replicate (?n * 3) (Fin 0), replicate (?n * 3) (Fin 0), ?s))"
    by (rule init_loop_inv) (simp_all add: constructor_def)
  then show ?thesis
    by (auto simp: init_post_def init_def constructor_def pool_ok_def split_def f32_get_def)
qed

lemma reset_slot_ok:
  assumes "pool_ok s" "i < maxParticles s"
  shows "pool_ok (reset_slot i s)" "same_globals s (reset_slot i s)"
proof -
  note sl = pool_ok_slot [OF assms]
  have "reset_slot i s = s\<lparr>active := (active s)[i := False],
                   particles := (particles s)[i * 3 + 2 := Fin (- 1000)]\<rparr>"
    using sl by (simp add: reset_slot_def f32_set_in)
  with pool_ok_deactivate [OF assms] show "pool_ok (reset_slot i s)" by simp
  show "same_globals s (reset_slot i s)" by (simp add: reset_slot_def same_globals_def)
qed

lemma fold_reset_ok:
  "pool_ok s \<Longrightarrow> \<forall>i\<in>set js. i < maxParticles s \<Longrightarrow>
   pool_ok (fold reset_slot js s) \<and> same_globals s (fold reset_slot js s)"
proof (induction js arbitrary: s)
  case Nil
  then show ?case by simp
next
  case (Cons j js)
  from Cons.prems have j: "j < maxParticles s" by simp
  note r = reset_slot_ok [OF Cons.prems(1) j]
  have "\<forall>i\<in>set js. i < maxParticles (reset_slot j s)"
    using Cons.prems(2) r(2) by (simp add: same_globals_def)
  from Cons.IH [OF r(1) this] r(2) show ?case by (auto intro: same_globals_trans)
qed

lemma reset_ok: "pool_ok s \<Longrightarrow> pool_ok (reset s) \<and> same_globals s (reset s)"
  using fold_reset_ok [of s "[0..<maxParticles s]"] by (simp add: reset_def)

lemma updateProperties_ok:
  "pool_ok s \<Longrightarrow> pool_ok (updateProperties p s)"
  by (simp add: updateProperties_def pool_ok_def)

lemma updateFromHandData_ok:
  "pool_ok s \<Longrightarrow> pool_ok (updateFromHandData hs s)"
  by (simp add: updateFromHandData_def pool_ok_def)

lemma reachable_pool_ok:
  "reachable opts s \<Longrightarrow> pool_ok s \<and> maxParticles s = count opts"
proof (induction rule: reachable.induct)
  case (r_init g)
  then show ?case using init_ok [of g opts] by simp
next
  case (r_emit s g x y z)
  then show ?case
    using emitParticle_pool_ok [of s g x y z] emitParticle_globals [of s x y z g]
    by (simp add: same_globals_def)
next
  case (r_update s g dt fc g' s')
  then show ?case using update_ok [of s g dt fc] by auto
next
  case (r_interact s i s')
  then show ?case
    using handleFingerInteraction_touched [of s i]
    by (auto simp: touched_def same_globals_def intro: touched_pool_ok)
next
  case (r_reset s)
  then show ?case using reset_ok [of s] by (simp add: same_globals_def)
next
  case (r_properties s p)
  then show ?case by (simp add: updateProperties_ok) (simp add: updateProperties_def)
next
  case (r_hands s hs)
  then show ?case by (simp add: updateFromHandData_ok) (simp add: updateFromHandData_def)
qed

lemma slot_sameD:
  assumes "slot_same i s t"
  shows "velocities t ! i = velocities s ! i" "lifetimes t ! i = lifetimes s ! i"
    "active t ! i = active s ! i"
    "particles t ! (i * 3) = particles s ! (i * 3)"
    "particles t ! (i * 3 + 1) = particles s ! (i * 3 + 1)"
    "particles t ! (i * 3 + 2) = particles s ! (i * 3 + 2)"
    "particleColors t ! (i * 3) = particleColors s ! (i * 3)"
    "particleColors t ! (i * 3 + 1) = particleColors s ! (i * 3 + 1)"
    "particleColors t ! (i * 3 + 2) = particleColors s ! (i * 3 + 2)"
proof -
  from assms have a: "\<And>k. k < 3 \<Longrightarrow> particles t ! (i * 3 + k) = particles s ! (i * 3 + k)"
    and b: "\<And>k. k < 3 \<Longrightarrow> particleColors t ! (i * 3 + k) = particleColors s ! (i * 3 + k)"
    by (simp_all add: slot_same_def)
  from a [of 0] a [of 1] a [of 2] b [of 0] b [of 1] b [of 2]
  show "particles t ! (i * 3) = particles s ! (i * 3)"
    "particles t ! (i * 3 + 1) = particles s ! (i * 3 + 1)"
    "particles t ! (i * 3 + 2) = particles s ! (i * 3 + 2)"
    "particleColors t ! (i * 3) = particleColors s ! (i * 3)"
    "particleColors t ! (i * 3 + 1) = particleColors s ! (i * 3 + 1)"
    "particleColors t ! (i * 3 + 2) = particleColors s ! (i * 3 + 2)"
    by simp_all
  from assms show "velocities t ! i = velocities s ! i" "lifetimes t ! i = lifetimes s ! i"
    "active t ! i = active s ! i" by (simp_all add: slot_same_def)
qed






lemma update_odd_frame:
  "frameCount mod 2 \<noteq> 0 \<Longrightarrow>
   update deltaTime frameCount (g, s) =
     (case update_particles s of Inl e \<Rightarrow> Inl e | Inr (c, s1) \<Rightarrow> Inr (g, s1))"
proof -
  assume a: "frameCount mod 2 \<noteq> 0"
  then have "frameCount mod 30 \<noteq> 0" by presburger
  with a show ?thesis by (simp add: update_def split: sum.splits)
qed

text \<open>The particle pass at an active slot whose lifetime runs out.\<close>

lemma update_particles_expired:
  assumes ok: "pool_ok s" and i: "i < maxParticles s" and act: "active s ! i"
    and l: "lifetimes s ! i = Fin l" and e: "l - 1 \<le> 0"
    and u: "update_particles s = Inr (c, s')"
  shows "lifetimes s' ! i = Fin (l - 1)" "\<not> active s' ! i"
    "velocities s' ! i = velocities s ! i"
    "particles s' ! (i * 3) = particles s ! (i * 3)"
    "particles s' ! (i * 3 + 1) = particles s ! (i * 3 + 1)"
    "particles s' ! (i * 3 + 2) = Fin (- 1000)"
    "particleColors s' ! (i * 3) = particleColors s ! (i * 3)"
    "particleColors s' ! (i * 3 + 1) = particleColors s ! (i * 3 + 1)"
    "particleColors s' ! (i * 3 + 2) = particleColors s ! (i * 3 + 2)"
proof -
  from update_particles_at [OF ok i] u obtain ca sa cb sb where
    a: "pool_ok sa" "same_globals s sa" "slot_same i s sa"
    "update_slot i (ca, sa) = Inr (cb, sb)" "slot_same i sb s'" by auto
  note sa = slot_sameD [OF a(3)] slot_sameD [OF a(3), simplified]
  have ia: "i < maxParticles sa" using a(2) i by (simp add: same_globals_def)
  note sl = pool_ok_slot [OF a(1) ia]
  have "update_slot i (ca, sa) =
     Inr (ca + 1, sa\<lparr>lifetimes := (lifetimes sa)[i := Fin (l - 1)],
                    active := (active sa)[i := False],
                    particles := (particles sa)[i * 3 + 2 := Fin (- 1000)]\<rparr>)"
    by (rule update_slot_expired [OF a(1) ia _ _ e]) (simp_all add: sa act l)
  with a(4) have sb: "sb = sa\<lparr>lifetimes := (lifetimes sa)[i := Fin (l - 1)],
                    active := (active sa)[i := False],
                    particles := (particles sa)[i * 3 + 2 := Fin (- 1000)]\<rparr>" by simp
  note s' = slot_sameD [OF a(5)] slot_sameD [OF a(5), simplified]
  show "lifetimes s' ! i = Fin (l - 1)" using sl by (simp add: s' sb)
  show "\<not> active s' ! i" using sl by (simp add: s' sb)
  show "velocities s' ! i = velocities s ! i" by (simp add: s' sb sa)
  show "particles s' ! (i * 3) = particles s ! (i * 3)" by (simp add: s' sb sa)
  show "particles s' ! (i * 3 + 1) = particles s ! (i * 3 + 1)" by (simp add: s' sb sa)
  show "particles s' ! (i * 3 + 2) = Fin (- 1000)" using sl by (simp add: s' sb)
  show "particleColors s' ! (i * 3) = particleColors s ! (i * 3)" by (simp add: s' sb sa)
  show "particleColors s' ! (i * 3 + 1) = particleColors s ! (i * 3 + 1)" by (simp add: s' sb sa)
  show "particleColors s' ! (i * 3 + 2) = particleColors s ! (i * 3 + 2)" by (simp add: s' sb sa)
qed



lemma reset_slot_fields [simp]:
  "velocities (reset_slot j s) = velocities s" "lifetimes (reset_slot j s) = lifetimes s"
  "particleColors (reset_slot j s) = particleColors s"
  "length (particles (reset_slot j s)) = length (particles s)"
  by (simp_all add: reset_slot_def)

lemma fold_reset_fields:
  "velocities (fold reset_slot js s) = velocities s \<and>
   lifetimes (fold reset_slot js s) = lifetimes s \<and>
   particleColors (fold reset_slot js s) = particleColors s \<and>
   length (particles (fold reset_slot js s)) = length (particles s)"
  by (induction js arbitrary: s) simp_all

lemma fold_reset_plane:
  "k < 2 \<Longrightarrow> particles (fold reset_slot js s) ! (i * 3 + k) = particles s ! (i * 3 + k)"
proof (induction js arbitrary: s)
  case Nil
  then show ?case by simp
next
  case (Cons j js)
  have "i * 3 + k \<noteq> j * 3 + 2" using Cons.prems by arith
  then have "particles (reset_slot j s) ! (i * 3 + k) = particles s ! (i * 3 + k)"
    by (simp add: reset_slot_def f32_set_def)
  with Cons.IH [OF Cons.prems, of "reset_slot j s"] show ?case by simp
qed

lemma fold_reset_inactive:
  "pool_ok s \<Longrightarrow> \<forall>j\<in>set js. j < maxParticles s \<Longrightarrow> i < maxParticles s \<Longrightarrow>
   i \<in> set js \<or> \<not> active s ! i \<Longrightarrow> \<not> active (fold reset_slot js s) ! i"
proof (induction js arbitrary: s)
  case Nil
  then show ?case by simp
next
  case (Cons j js)
  from Cons.prems have j: "j < maxParticles s" by simp
  note r = reset_slot_ok [OF Cons.prems(1) j]
  note sl = pool_ok_slot(1) [OF Cons.prems(1) j]
  have m: "maxParticles (reset_slot j s) = maxParticles s" using r(2) by (simp add: same_globals_def)
  have a: "active (reset_slot j s) = (active s)[j := False]"
    using sl by (simp add: reset_slot_def)
  have "i \<in> set js \<or> \<not> active (reset_slot j s) ! i"
    using Cons.prems(4) sl by (auto simp: a nth_list_update)
  with Cons.IH [OF r(1)] Cons.prems(2,3) m show ?case by simp
qed

lemma reset_slot_result:
  assumes "pool_ok s" "i < maxParticles s"
  shows "\<not> active (reset s) ! i" "particles (reset s) ! (i * 3 + 2) = Fin (- 1000)"
    "particles (reset s) ! (i * 3) = particles s ! (i * 3)"
    "particles (reset s) ! (i * 3 + 1) = particles s ! (i * 3 + 1)"
    "velocities (reset s) = velocities s" "particleColors (reset s) = particleColors s"
    "lifetimes (reset s) = lifetimes s"
proof -
  show a: "\<not> active (reset s) ! i"
    unfolding reset_def using assms by (intro fold_reset_inactive) simp_all
  from reset_ok [OF assms(1)] have ok: "pool_ok (reset s)" and
    m: "maxParticles (reset s) = maxParticles s" by (simp_all add: same_globals_def)
  from assms(2) m have i: "i < maxParticles (reset s)" by simp
  note sl = pool_ok_slot [OF ok i]
  from ok sl(1) a have "f32_get (particles (reset s)) (i * 3 + 2) = Fin (- 1000)"
    by (simp add: pool_ok_def)
  then show "particles (reset s) ! (i * 3 + 2) = Fin (- 1000)" using sl(4) by (simp add: f32_get_def)
  show "particles (reset s) ! (i * 3) = particles s ! (i * 3)"
    using fold_reset_plane [of 0 "[0..<maxParticles s]" s i] by (simp add: reset_def)
  show "particles (reset s) ! (i * 3 + 1) = particles s ! (i * 3 + 1)"
    using fold_reset_plane [of 1 "[0..<maxParticles s]" s i] by (simp add: reset_def)
  show "velocities (reset s) = velocities s" "particleColors (reset s) = particleColors s"
    "lifetimes (reset s) = lifetimes s"
    by (simp_all add: reset_def fold_reset_fields)
qed

lemma interact_tip_snapshot:
  "interact_tip index px py (h\<lparr>fingerExtension := fe\<rparr>) t (s\<lparr>fingerPositions := fp\<rparr>) =
     map_sum id (\<lambda>s'. s'\<lparr>fingerPositions := fp\<rparr>) (interact_tip index px py h t s)"
  by (simp add: interact_tip_def Let_def split: option.splits)

lemma interact_tips_snapshot:
  "interact_tips index px py (h\<lparr>fingerExtension := fe\<rparr>) ts (s\<lparr>fingerPositions := fp\<rparr>) =
     map_sum id (\<lambda>s'. s'\<lparr>fingerPositions := fp\<rparr>) (interact_tips index px py h ts s)"
proof (induction ts arbitrary: s)
  case Nil
  then show ?case by simp
next
  case (Cons t ts)
  show ?case
    by (cases "interact_tip index px py h t s") (simp_all add: interact_tip_snapshot Cons.IH)
qed

lemma interact_hands_snapshot:
  "interact_hands index px py (map (\<lambda>h. h\<lparr>fingerExtension := fe h\<rparr>) hs)
       (s\<lparr>fingerPositions := fp\<rparr>) =
     map_sum id (\<lambda>s'. s'\<lparr>fingerPositions := fp\<rparr>) (interact_hands index px py hs s)"
proof (induction hs arbitrary: s)
  case Nil
  then show ?case by simp
next
  case (Cons h hs)
  show ?case
    by (cases "interact_tips index px py h (tips h) s")
       (simp_all add: interact_tips_snapshot Cons.IH)
qed








lemma zero_distance_zero_offsets:
  "tip_distance px py t = 0 \<Longrightarrow> tip_x t - px = 0 \<and> tip_y t - py = 0"
  by (simp add: tip_distance_def sum_squares_eq_zero_iff)

lemma floor_draw_iff:
  assumes "0 \<le> r" "0 < n"
  shows "(nat \<lfloor>r * real n\<rfloor> = k) = (real k / real n \<le> r \<and> r < (real k + 1) / real n)"
proof -
  have nn: "0 \<le> r * real n" using assms by simp
  then have "(nat \<lfloor>r * real n\<rfloor> = k) = (\<lfloor>r * real n\<rfloor> = int k)" by linarith
  also have "\<dots> = (real k \<le> r * real n \<and> r * real n < real k + 1)"
    by (simp add: floor_eq_iff)
  also have "\<dots> = (real k / real n \<le> r \<and> r < (real k + 1) / real n)"
    using assms(2) by (simp add: pos_divide_le_eq pos_less_divide_eq)
  finally show ?thesis .
qed

lemma randomInt_range:
  assumes "0 \<le> r" "r < 1" "1 \<le> E"
  shows "1 \<le> randomInt 1 E r" "randomInt 1 E r \<le> E"
    "(randomInt 1 E r = m) = (real_of_int (m - 1) / real_of_int E \<le> r \<and> r < real_of_int m / real_of_int E)"
proof -
  have E: "0 < real_of_int E" using assms(3) by simp
  have f: "randomInt 1 E r = \<lfloor>r * real_of_int E\<rfloor> + 1" by (simp add: randomInt_def)
  have "0 \<le> r * real_of_int E" using assms E by simp
  then show "1 \<le> randomInt 1 E r" by (simp add: f)
  have "r * real_of_int E < real_of_int E" using assms E by simp
  then have "\<lfloor>r * real_of_int E\<rfloor> < E" by (simp add: floor_less_iff)
  then show "randomInt 1 E r \<le> E" by (simp add: f)
  have "(randomInt 1 E r = m) = (\<lfloor>r * real_of_int E\<rfloor> = m - 1)" by (auto simp: f)
  also have "\<dots> = (real_of_int (m - 1) \<le> r * real_of_int E \<and> r * real_of_int E < real_of_int (m - 1) + 1)"
    by (simp only: floor_eq_iff)
  also have "\<dots> = (real_of_int (m - 1) / real_of_int E \<le> r \<and> r < real_of_int m / real_of_int E)"
    using E by (simp add: pos_divide_le_eq pos_less_divide_eq)
  finally show "(randomInt 1 E r = m) =
    (real_of_int (m - 1) / real_of_int E \<le> r \<and> r < real_of_int m / real_of_int E)" .
qed

lemma emit_times_funpow:
  "emit_times n t a = ((\<lambda>a. snd (emitParticle (tip_x t) (tip_y t) 0 a)) ^^ n) a"
  by (induction n arbitrary: a) (simp_all add: funpow_Suc_right del: funpow.simps)

lemma emit_tips_fold:
  "emit_tips h ts k a = fold (\<lambda>p. emit_tip h (fst p) (snd p)) (zip ts [k..<k + length ts]) a"
proof (induction ts arbitrary: k a)
  case Nil
  then show ?case by simp
next
  case (Cons t ts)
  have "k < k + Suc (length ts)" by simp
  from upt_conv_Cons [OF this]
  have "[k..<k + length (t # ts)] = k # [Suc k..<Suc k + length ts]" by simp
  then show ?case by (simp add: Cons.IH del: upt_Suc)
qed

lemma emit_hands_fold:
  "emit_hands hs a = fold (\<lambda>p. emit_tip (fst p) (fst (snd p)) (snd (snd p))) (tip_triples hs) a"
proof (induction hs arbitrary: a)
  case Nil
  then show ?case by (simp add: tip_triples_def)
next
  case (Cons h hs)
  have "fold (\<lambda>p. emit_tip (fst p) (fst (snd p)) (snd (snd p)))
          (map (\<lambda>p. (h, fst p, snd p)) ps) b
        = fold (\<lambda>p. emit_tip h (fst p) (snd p)) ps b" for ps b
    by (induction ps arbitrary: b) simp_all
  then show ?case
    using emit_tips_fold [of h "tips h" 0 a] by (simp add: tip_triples_def Cons.IH)
qed

lemma update_even_frame:
  "frameCount mod 2 = 0 \<Longrightarrow>
   update deltaTime frameCount (g, s) =
     (case update_particles s of
        Inl e \<Rightarrow> Inl e
      | Inr (c, s1) \<Rightarrow>
          Inr (fst (emitParticlesFromFingers (g, s1)),
               if frameCount mod 30 = 0
               then (snd (emitParticlesFromFingers (g, s1)))\<lparr>particleCount := c\<rparr>
               else snd (emitParticlesFromFingers (g, s1))))"
  by (simp add: update_def split_def Let_def split: sum.splits)

text \<open>
  Every call of \<open>emitParticle\<close> evaluates to \<open>undefined\<close>, so the guarded writes of the
  effects never run: an effect is a sequence of \<open>emitParticle\<close> calls.
\<close>

lemma emitParticle_returns_undefined: "fst (emitParticle x y z a) = None"
  by (cases a) (simp add: emitParticle_eq Let_def)

lemma createExplosion_step:
  "createExplosion x y z (Suc n) radius color (g, s) =
     createExplosion x y z n radius color
       (snd (emitParticle (x + cos (g 0 * pi * 2) * (g 1 * radius))
                          (y + sin (g 0 * pi * 2) * (g 1 * radius)) z (\<lambda>n. g (n + 2), s)))"
proof -
  have "fst (emitParticle px py z (g2, s)) = None" for px py g2
    by (rule emitParticle_returns_undefined)
  then show ?thesis
    by (simp add: random_next_def Let_def split_def split: option.splits)
qed

lemma createExplosion_color_unused:
  "createExplosion x y z n radius color a = createExplosion x y z n radius None a"
proof (induction n arbitrary: a)
  case 0
  then show ?case by simp
next
  case (Suc n)
  obtain g s where a: "a = (g, s)" by (cases a)
  show ?case unfolding a createExplosion_step by (rule Suc.IH)
qed

lemma createExplosion_reachable:
  "reachable opts s \<Longrightarrow> rng_ok g \<Longrightarrow>
   reachable opts (snd (createExplosion x y z n radius color (g, s))) \<and>
   rng_ok (fst (createExplosion x y z n radius color (g, s)))"
proof (induction n arbitrary: g s)
  case 0
  then show ?case by simp
next
  case (Suc n)
  let ?e = "emitParticle (x + cos (g 0 * pi * 2) * (g 1 * radius))
                          (y + sin (g 0 * pi * 2) * (g 1 * radius)) z (\<lambda>n. g (n + 2), s)"
  have g2: "rng_ok (\<lambda>n. g (n + 2))" using Suc.prems(2) by (simp add: rng_ok_def)
  have "reachable opts (snd (snd ?e))" by (rule reachable.r_emit [OF Suc.prems(1) g2])
  moreover have "rng_ok (fst (snd ?e))" by (rule emitParticle_rng [OF g2])
  ultimately show ?case
    using Suc.IH [of "snd (snd ?e)" "fst (snd ?e)"]
    by (simp add: createExplosion_step del: createExplosion.simps)
qed






lemma out_of_reach_particleCount [simp]:
  "out_of_reach (t\<lparr>particleCount := c\<rparr>) i = out_of_reach t i"
  by (simp add: out_of_reach_def cong: option.case_cong jsnum.case_cong)

lemma physics_step_particleCount [simp]:
  "physics_step i l v s (t\<lparr>particleCount := c\<rparr>) = physics_step i l v s t"
  by (simp add: physics_step_def)

section \<open>The example pools, evaluated\<close>


lemma zero_rng_ok: "rng_ok zero_rng"
  by (simp add: rng_ok_def zero_rng_def)

lemma pool1_eq:
  "pool1 = \<lparr>options = Config_particles\<lparr>count := 1\<rparr>, maxParticles = 1,
     particles = [Fin 0, Fin 0, Fin (- 1000)],
     particleColors = [Fin 1, Fin (4 / 15), Fin (4 / 15)],
     velocities = [Some \<lparr>vec_x = Fin 0, vec_y = Fin 0, vec_z = Fin 0\<rparr>],
     lifetimes = [Fin 0], active = [False],
     colors_this = [(1, 4 / 15, 4 / 15)], particleCount = 0,
     fingerPositions = Some []\<rparr>"
  by (simp add: pool1_def init_def constructor_def Config_particles_def getRandomColor_eq
      THREE_Color_def f32_set_def numeral_3_eq_3 zero_rng_def Let_def)



lemma select_slot_pool1: "select_slot zero_rng pool1 = (0, zero_rng)"
  by (simp add: select_slot_def pool1_eq flag_get_def)


lemma emit_pool1:
  "snd (snd (emitParticle 0 0 0 (zero_rng, pool1))) =
     pool1\<lparr>particles := [Fin 0, Fin 0, Fin 0],
        velocities := [Some \<lparr>vec_x = Fin 0, vec_y = Fin 0, vec_z = Fin (- (1 / 10))\<rparr>],
        lifetimes := [Fin 1500], active := [True]\<rparr>"
  apply (simp add: emitParticle_eq select_slot_pool1 Let_def)
  apply (simp add: pool1_eq f32_set_def arr_set_def Config_particles_def zero_rng_def
      getRandomColor_eq THREE_Color_def)
  done

lemma emitted1_eq:
  "emitted1 = pool1\<lparr>particles := [Fin 0, Fin 0, Fin 0],
        velocities := [Some \<lparr>vec_x = Fin 0, vec_y = Fin 0, vec_z = Fin (- (1 / 10))\<rparr>],
        lifetimes := [Fin 1500], active := [True]\<rparr>"
  by (simp add: emitted1_def emit_pool1)

lemma short_lived1_eq:
  "short_lived1 = pool1\<lparr>options := Config_particles\<lparr>count := 1, lifetime := 1\<rparr>,
        particles := [Fin 0, Fin 0, Fin 0],
        velocities := [Some \<lparr>vec_x = Fin 0, vec_y = Fin 0, vec_z = Fin (- (1 / 10))\<rparr>],
        lifetimes := [Fin 1], active := [True]\<rparr>"
proof -
  have sel: "select_slot zero_rng (updateProperties (no_properties\<lparr>p_lifetime := Some 1\<rparr>) pool1)
      = (0, zero_rng)"
    by (simp add: select_slot_def pool1_eq flag_get_def updateProperties_def)
  show ?thesis
    unfolding short_lived1_def
    apply (simp add: emitParticle_eq sel Let_def)
    apply (simp add: pool1_eq f32_set_def arr_set_def Config_particles_def zero_rng_def
      getRandomColor_eq THREE_Color_def updateProperties_def merge_options_def no_properties_def)
    done
qed

lemma pool1_reachable: "reachable (Config_particles\<lparr>count := 1\<rparr>) pool1"
  unfolding pool1_def by (rule reachable.r_init)

lemma emitted1_ok: "pool_ok emitted1"
  unfolding emitted1_def
  using reachable_pool_ok [OF reachable.r_emit [OF pool1_reachable zero_rng_ok]] by simp

lemma short_lived1_ok: "pool_ok short_lived1"
  unfolding short_lived1_def
  using reachable_pool_ok
    [OF reachable.r_emit [OF reachable.r_properties [OF pool1_reachable] zero_rng_ok]]
  by simp

lemma emitted1_record:
  "emitted1 = \<lparr>options = Config_particles\<lparr>count := 1\<rparr>, maxParticles = 1,
     particles = [Fin 0, Fin 0, Fin 0],
     particleColors = [Fin 1, Fin (4 / 15), Fin (4 / 15)],
     velocities = [Some \<lparr>vec_x = Fin 0, vec_y = Fin 0, vec_z = Fin (- (1 / 10))\<rparr>],
     lifetimes = [Fin 1500], active = [True],
     colors_this = [(1, 4 / 15, 4 / 15)], particleCount = 0,
     fingerPositions = Some []\<rparr>"
  by (simp add: emitted1_eq pool1_eq)

lemma interact_curled:
  "handleFingerInteraction 0 (updateFromHandData (Some [curled_hand]) emitted1) =
     Inr (emitted1\<lparr>velocities := [Some \<lparr>vec_x = Fin (9 / 20), vec_y = Fin 0,
                                         vec_z = Fin (- (1 / 10))\<rparr>],
                   lifetimes := [Fin 1505],
                   fingerPositions := Some [curled_hand]\<rparr>)"
  by (simp add: handleFingerInteraction_def updateFromHandData_def emitted1_record curled_hand_def
     f32_get_def interact_tip_def tip_at_def Config_particles_def obj_get_def arr_get_def
     arr_set_def f32_set_def Let_def)

lemma interact_here:
  "handleFingerInteraction 0 (updateFromHandData (Some [open_hand_here]) emitted1) =
     Inr (emitted1\<lparr>velocities := [Some \<lparr>vec_x = NaN, vec_y = NaN, vec_z = Fin (- (1 / 10))\<rparr>],
                   lifetimes := [Fin 1505],
                   fingerPositions := Some [open_hand_here]\<rparr>)"
  by (simp add: handleFingerInteraction_def updateFromHandData_def emitted1_record
     open_hand_here_def f32_get_def interact_tip_def tip_at_def Config_particles_def obj_get_def
     arr_get_def arr_set_def f32_set_def Let_def)

lemma still_pool1_eq:
  "still_pool1 = \<lparr>options = Config_particles\<lparr>count := 1, gravity := 0\<rparr>, maxParticles = 1,
     particles = [Fin 0, Fin 0, Fin (- 1000)],
     particleColors = [Fin 1, Fin (4 / 15), Fin (4 / 15)],
     velocities = [Some \<lparr>vec_x = Fin 0, vec_y = Fin 0, vec_z = Fin 0\<rparr>],
     lifetimes = [Fin 0], active = [False],
     colors_this = [(1, 4 / 15, 4 / 15)], particleCount = 0,
     fingerPositions = Some [open_hand_here]\<rparr>"
  by (simp add: still_pool1_def updateFromHandData_def init_def constructor_def
      Config_particles_def getRandomColor_eq THREE_Color_def f32_set_def numeral_3_eq_3
      zero_rng_def Let_def)

lemma still_frame0_pass: "update_particles still_pool1 = Inr (0, still_pool1)"
  by (simp add: update_particles_def update_slot_def still_pool1_eq flag_get_def)

lemma still_frame0_emit:
  "emitParticlesFromFingers (zero_rng, still_pool1) =
     (zero_rng, still_pool1\<lparr>particles := [Fin 0, Fin 0, Fin 0],
        velocities := [Some \<lparr>vec_x = Fin 0, vec_y = Fin 0, vec_z = Fin (- (1 / 10))\<rparr>],
        lifetimes := [Fin 1500], active := [True]\<rparr>)"
proof -
  have sel: "select_slot zero_rng still_pool1 = (0, zero_rng)"
    by (simp add: select_slot_def still_pool1_eq flag_get_def)
  have n: "nat (randomInt 1 (emissionRate (options still_pool1)) 0) = Suc 0"
    by (simp add: randomInt_def)
  have e: "snd (emitParticle 0 0 0 (zero_rng, still_pool1)) =
     (zero_rng, still_pool1\<lparr>particles := [Fin 0, Fin 0, Fin 0],
        velocities := [Some \<lparr>vec_x = Fin 0, vec_y = Fin 0, vec_z = Fin (- (1 / 10))\<rparr>],
        lifetimes := [Fin 1500], active := [True]\<rparr>)"
    apply (simp add: emitParticle_eq sel Let_def)
    apply (simp add: still_pool1_eq f32_set_def arr_set_def Config_particles_def zero_rng_def
      getRandomColor_eq THREE_Color_def)
    done
  have fp: "fingerPositions still_pool1 = Some [open_hand_here]" by (simp add: still_pool1_eq)
  show ?thesis
    apply (simp add: emitParticlesFromFingers_def fp)
    apply (simp add: open_hand_here_def emit_tip_def flag_get_def tip_at_def)
    apply (simp add: zero_rng_def [symmetric] random_next_def)
    apply (simp add: zero_rng_def)
    apply (simp add: zero_rng_def [symmetric] n e)
    done
qed

lemma still_frame0: "update 0 0 (zero_rng, still_pool1) = Inr (zero_rng, still_emitted1)"
  by (simp add: update_def still_frame0_pass still_frame0_emit still_emitted1_def)
     (simp add: still_pool1_eq)

lemma still_frame1_pass:
  "update_particles still_emitted1 =
     Inr (1, still_emitted1\<lparr>particles := [Fin 0, Fin 0, Fin (- (49 / 500))],
        velocities := [Some \<lparr>vec_x = NaN, vec_y = NaN, vec_z = Fin (- (49 / 500))\<rparr>],
        lifetimes := [Fin 1504]\<rparr>)"
  by (simp add: update_particles_def update_slot_def still_emitted1_def still_pool1_eq flag_get_def
      handleFingerInteraction_def open_hand_here_def
      f32_get_def interact_tip_def tip_at_def Config_particles_def obj_get_def arr_get_def
      arr_set_def f32_set_def Let_def)



lemma tip_at_sel [simp]: "tip_x (tip_at a b) = a" "tip_y (tip_at a b) = b"
  by (simp_all add: tip_at_def)

lemma tip_distance_row [simp]: "tip_distance px py (tip_at a py) = \<bar>a - px\<bar>"
  by (simp add: tip_distance_def tip_at_def)

lemma tip_distance_column [simp]: "tip_distance px py (tip_at px b) = \<bar>b - py\<bar>"
  by (simp add: tip_distance_def tip_at_def)


lemma speed_of_depth: "speed_of 0 0 c = \<bar>c\<bar>"
  by (simp add: speed_of_def)

lemma emit_slow_pool1:
  "emitParticle 0 0 0 (zero_rng, slow_pool1) =
     (None, zero_rng, slow_pool1\<lparr>particles := [Fin 0, Fin 0, Fin 0],
        velocities := [Some \<lparr>vec_x = Fin 0, vec_y = Fin 0, vec_z = Fin (- (1 / 10))\<rparr>],
        lifetimes := [Fin 1500], active := [True]\<rparr>)"
proof -
  have sel: "select_slot zero_rng slow_pool1 = (0, zero_rng)"
    by (simp add: select_slot_def slow_pool1_def pool1_eq flag_get_def updateProperties_def)
  show ?thesis
    apply (simp add: emitParticle_eq sel Let_def)
    apply (simp add: slow_pool1_def pool1_eq f32_set_def arr_set_def Config_particles_def
      zero_rng_def getRandomColor_eq THREE_Color_def updateProperties_def merge_options_def
      no_properties_def)
    done
qed

section \<open>Pool capacity (claim C1)\<close>




section \<open>The sentinel of inactive slots (claim C5)\<close>

text \<open>
  Claim C5: in every state reached from \<open>init\<close> by the operations of the engine, every
  slot whose \<open>active\<close> flag is false has the depth entry \<open>-1000\<close> in the position
  buffer.
\<close>

theorem sentinel_invariant:
  assumes "reachable opts s" "i < length (active s)" "\<not> active s ! i"
  shows "f32_get (particles s) (i * 3 + 2) = Fin (- 1000)"
  using reachable_pool_ok [OF assms(1)] assms(2,3) by (simp add: pool_ok_def)

text \<open>
  Witness for C5: the slot of a one-slot pool, emitted at depth 0 and then \<open>reset\<close>.
\<close>

theorem sentinel_invariant_witness:
  "reachable (Config_particles\<lparr>count := 1\<rparr>)
      (reset (snd (snd (emitParticle 0 0 0 (zero_rng, pool1))))) \<and>
   0 < length (active (reset (snd (snd (emitParticle 0 0 0 (zero_rng, pool1)))))) \<and>
   \<not> active (reset (snd (snd (emitParticle 0 0 0 (zero_rng, pool1))))) ! 0 \<and>
   f32_get (particles (snd (snd (emitParticle 0 0 0 (zero_rng, pool1))))) (0 * 3 + 2) = Fin 0 \<and>
   f32_get (particles (reset (snd (snd (emitParticle 0 0 0 (zero_rng, pool1)))))) (0 * 3 + 2)
     = Fin (- 1000)"
proof -
  let ?s = "reset (snd (snd (emitParticle 0 0 0 (zero_rng, pool1))))"
  have r: "reachable (Config_particles\<lparr>count := 1\<rparr>) ?s"
    unfolding pool1_def
    by (intro reachable.r_reset reachable.r_emit reachable.r_init zero_rng_ok)
  have a: "active ?s = [False]"
    by (simp add: emit_pool1 reset_def) (simp add: pool1_eq reset_slot_def arr_set_def)
  have b: "f32_get (particles (snd (snd (emitParticle 0 0 0 (zero_rng, pool1))))) (0 * 3 + 2) = Fin 0"
    by (simp add: emit_pool1 f32_get_def)
  from a have l: "0 < length (active ?s)" and n: "\<not> active ?s ! 0" by simp_all
  from sentinel_invariant [OF r l n] r l n b show ?thesis by simp
qed

section \<open>Applying a configuration (claim C9)\<close>

text \<open>
  Claim C9, as stated, fails: \<open>updateProperties({friction: 2})\<close> stores the friction 2,
  outside \<open>(0, 1]\<close>, and the stored options change.
\<close>

theorem degenerate_friction_is_stored:
  "options (updateProperties (no_properties\<lparr>p_friction := Some 2\<rparr>) pool1) \<noteq> options pool1 \<and>
   \<not> (0 < friction (options (updateProperties (no_properties\<lparr>p_friction := Some 2\<rparr>) pool1)) \<and>
      friction (options (updateProperties (no_properties\<lparr>p_friction := Some 2\<rparr>) pool1)) \<le> 1) \<and>
   friction (options (updateProperties (no_properties\<lparr>p_friction := Some 2\<rparr>) pool1)) = 2"
  by (simp add: updateProperties_def merge_options_def no_properties_def pool1_eq
      Config_particles_def)

text \<open>
  Claim C9, amended: \<open>updateProperties\<close> validates nothing. It merges the given
  properties into the stored options key by key: for each of the ten keys, a supplied
  value becomes the stored value as it is (any \<open>friction\<close>, \<open>interactionRadius\<close> or
  \<open>colors\<close>, degenerate or not), and a key that is not supplied keeps its stored value;
  with no key supplied the system is unchanged. The call changes nothing but the stored
  options: neither \<open>maxParticles\<close>, nor any particle array (positions, colours,
  velocities, lifetimes, active flags), nor the palette copied at construction, the
  particle count or the hand snapshot.
\<close>

theorem updateProperties_stores_as_given:
  "friction (options (updateProperties (p\<lparr>p_friction := Some f\<rparr>) s)) = f \<and>
   interactionRadius (options (updateProperties (p\<lparr>p_interactionRadius := Some r\<rparr>) s)) = r \<and>
   colors (options (updateProperties (p\<lparr>p_colors := Some cs\<rparr>) s)) = cs \<and>
   options (updateProperties p s) =
     \<lparr>count = (case p_count p of Some v \<Rightarrow> v | None \<Rightarrow> count (options s)),
      size' = (case p_size p of Some v \<Rightarrow> v | None \<Rightarrow> size' (options s)),
      maxSpeed = (case p_maxSpeed p of Some v \<Rightarrow> v | None \<Rightarrow> maxSpeed (options s)),
      lifetime = (case p_lifetime p of Some v \<Rightarrow> v | None \<Rightarrow> lifetime (options s)),
      colors = (case p_colors p of Some v \<Rightarrow> v | None \<Rightarrow> colors (options s)),
      emissionRate = (case p_emissionRate p of Some v \<Rightarrow> v | None \<Rightarrow> emissionRate (options s)),
      gravity = (case p_gravity p of Some v \<Rightarrow> v | None \<Rightarrow> gravity (options s)),
      friction = (case p_friction p of Some v \<Rightarrow> v | None \<Rightarrow> friction (options s)),
      bounceStrength =
        (case p_bounceStrength p of Some v \<Rightarrow> v | None \<Rightarrow> bounceStrength (options s)),
      interactionRadius =
        (case p_interactionRadius p of Some v \<Rightarrow> v | None \<Rightarrow> interactionRadius (options s))\<rparr> \<and>
   updateProperties no_properties s = s \<and>
   updateProperties p s = s\<lparr>options := options (updateProperties p s)\<rparr> \<and>
   maxParticles (updateProperties p s) = maxParticles s \<and>
   particles (updateProperties p s) = particles s \<and>
   particleColors (updateProperties p s) = particleColors s \<and>
   velocities (updateProperties p s) = velocities s \<and>
   lifetimes (updateProperties p s) = lifetimes s \<and>
   active (updateProperties p s) = active s \<and>
   colors_this (updateProperties p s) = colors_this s \<and>
   particleCount (updateProperties p s) = particleCount s \<and>
   fingerPositions (updateProperties p s) = fingerPositions s"
  by (simp add: updateProperties_def merge_options_def no_properties_def)

section \<open>The physics step of a slot (claim C2)\<close>



section \<open>What deactivation leaves untouched (claim C10)\<close>

text \<open>
  Claim C10: when the particle pass of \<open>update\<close> deactivates slot \<open>i\<close> because its
  lifetime ran out, the slot's flag becomes false and its depth entry \<open>-1000\<close>, while its
  \<open>x\<close> and \<open>y\<close> entries, its velocity and its three colour entries are unchanged. The
  same holds for every slot under \<open>reset\<close>, which moreover changes no lifetime, no
  velocity and no colour entry at all.
\<close>

theorem deactivation_frame:
  assumes "pool_ok s" "i < maxParticles s"
  shows "(active s ! i \<and> lifetimes s ! i = Fin l \<and> l - 1 \<le> 0 \<and>
          update_particles s = Inr (c, s') \<longrightarrow>
            \<not> active s' ! i \<and> particles s' ! (i * 3 + 2) = Fin (- 1000) \<and>
            particles s' ! (i * 3) = particles s ! (i * 3) \<and>
            particles s' ! (i * 3 + 1) = particles s ! (i * 3 + 1) \<and>
            velocities s' ! i = velocities s ! i \<and>
            particleColors s' ! (i * 3) = particleColors s ! (i * 3) \<and>
            particleColors s' ! (i * 3 + 1) = particleColors s ! (i * 3 + 1) \<and>
            particleColors s' ! (i * 3 + 2) = particleColors s ! (i * 3 + 2)) \<and>
         \<not> active (reset s) ! i \<and> particles (reset s) ! (i * 3 + 2) = Fin (- 1000) \<and>
         particles (reset s) ! (i * 3) = particles s ! (i * 3) \<and>
         particles (reset s) ! (i * 3 + 1) = particles s ! (i * 3 + 1) \<and>
         velocities (reset s) = velocities s \<and>
         particleColors (reset s) = particleColors s \<and>
         lifetimes (reset s) = lifetimes s"
  using update_particles_expired [OF assms, of l c s'] reset_slot_result [OF assms]
  by simp

text \<open>
  Witness for C10: the one-slot pool whose particle has lifetime 1, expired by the
  particle pass and, separately, reset.
\<close>

theorem deactivation_frame_witness:
  "pool_ok short_lived1 \<and> 0 < maxParticles short_lived1 \<and> active short_lived1 ! 0 \<and>
   lifetimes short_lived1 ! 0 = Fin 1 \<and> (1::real) - 1 \<le> 0 \<and>
   (\<exists>c s'. update_particles short_lived1 = Inr (c, s') \<and>
      \<not> active s' ! 0 \<and> particles s' ! (0 * 3 + 2) = Fin (- 1000) \<and>
      particles s' ! (0 * 3) = Fin 0 \<and> particles s' ! (0 * 3 + 1) = Fin 0 \<and>
      velocities s' ! 0 = Some \<lparr>vec_x = Fin 0, vec_y = Fin 0, vec_z = Fin (- (1 / 10))\<rparr> \<and>
      particleColors s' ! (0 * 3) = Fin 1 \<and> particleColors s' ! (0 * 3 + 1) = Fin (4 / 15) \<and>
      particleColors s' ! (0 * 3 + 2) = Fin (4 / 15)) \<and>
   \<not> active (reset short_lived1) ! 0 \<and>
   particles (reset short_lived1) ! (0 * 3 + 2) = Fin (- 1000) \<and>
   particles (reset short_lived1) ! (0 * 3) = Fin 0 \<and>
   particles (reset short_lived1) ! (0 * 3 + 1) = Fin 0 \<and>
   velocities (reset short_lived1)
     = [Some \<lparr>vec_x = Fin 0, vec_y = Fin 0, vec_z = Fin (- (1 / 10))\<rparr>] \<and>
   particleColors (reset short_lived1) = [Fin 1, Fin (4 / 15), Fin (4 / 15)] \<and>
   lifetimes (reset short_lived1) = [Fin 1]"
proof -
  have x: "0 < maxParticles short_lived1" "active short_lived1 ! 0"
    "lifetimes short_lived1 ! 0 = Fin 1"
    "velocities short_lived1 = [Some \<lparr>vec_x = Fin 0, vec_y = Fin 0, vec_z = Fin (- (1 / 10))\<rparr>]"
    "particles short_lived1 = [Fin 0, Fin 0, Fin 0]"
    "particleColors short_lived1 = [Fin 1, Fin (4 / 15), Fin (4 / 15)]"
    "lifetimes short_lived1 = [Fin 1]"
    by (simp_all add: short_lived1_eq pool1_eq)
  from update_particles_total [OF short_lived1_ok] obtain c s' where
    u: "update_particles short_lived1 = Inr (c, s')" by blast
  from deactivation_frame [OF short_lived1_ok x(1), of 1 c s'] u x
  have "(\<not> active s' ! 0 \<and> particles s' ! (0 * 3 + 2) = Fin (- 1000) \<and>
      particles s' ! (0 * 3) = Fin 0 \<and> particles s' ! (0 * 3 + 1) = Fin 0 \<and>
      velocities s' ! 0 = Some \<lparr>vec_x = Fin 0, vec_y = Fin 0, vec_z = Fin (- (1 / 10))\<rparr> \<and>
      particleColors s' ! (0 * 3) = Fin 1 \<and> particleColors s' ! (0 * 3 + 1) = Fin (4 / 15) \<and>
      particleColors s' ! (0 * 3 + 2) = Fin (4 / 15)) \<and>
   \<not> active (reset short_lived1) ! 0 \<and>
   particles (reset short_lived1) ! (0 * 3 + 2) = Fin (- 1000) \<and>
   particles (reset short_lived1) ! (0 * 3) = Fin 0 \<and>
   particles (reset short_lived1) ! (0 * 3 + 1) = Fin 0 \<and>
   velocities (reset short_lived1)
     = [Some \<lparr>vec_x = Fin 0, vec_y = Fin 0, vec_z = Fin (- (1 / 10))\<rparr>] \<and>
   particleColors (reset short_lived1) = [Fin 1, Fin (4 / 15), Fin (4 / 15)] \<and>
   lifetimes (reset short_lived1) = [Fin 1]"
    by simp
  with u x short_lived1_ok show ?thesis by auto
qed

section \<open>Contact with finger tips (claims C3, C6, C7)\<close>




text \<open>
  Claim C6 at the failing input: one hand whose only tip, at \<open>(1, 0)\<close>, has the
  extension flag false, and an active particle at rest at the origin, radius 10. The
  interaction pass changes the particle's \<open>x\<close> velocity from 0 to \<open>9/20\<close> and its
  lifetime from 1500 to 1505, where the claim says that such a tip changes nothing. The
  callback of the pass declares \<open>fingerIndex\<close> and never uses it; the loop of
  \<open>emitParticlesFromFingers\<close> over the same tips tests
  \<open>hand.fingerExtension[fingerIndex]\<close>.
\<close>

theorem curled_finger_pushes:
  "fingerExtension curled_hand = [False] \<and>
   handleFingerInteraction 0 (updateFromHandData (Some [curled_hand]) emitted1) =
     Inr (emitted1\<lparr>velocities := [Some \<lparr>vec_x = Fin (9 / 20), vec_y = Fin 0,
                                         vec_z = Fin (- (1 / 10))\<rparr>],
                   lifetimes := [Fin 1505],
                   fingerPositions := Some [curled_hand]\<rparr>) \<and>
   velocities emitted1 = [Some \<lparr>vec_x = Fin 0, vec_y = Fin 0, vec_z = Fin (- (1 / 10))\<rparr>] \<and>
   lifetimes emitted1 = [Fin 1500] \<and>
   handleFingerInteraction 0 (updateFromHandData (Some [curled_hand]) emitted1)
     \<noteq> Inr (updateFromHandData (Some [curled_hand]) emitted1)"
  by (simp add: interact_curled) (simp add: curled_hand_def emitted1_record updateFromHandData_def)

text \<open>
  The failure is not particular to that input: the interaction pass reads no extension
  flag. Whatever flags the hands of the snapshot carry, \<open>handleFingerInteraction\<close>
  gives the same result (the stored snapshot apart).
\<close>

lemma interaction_ignores_extension:
  "handleFingerInteraction index
      (updateFromHandData (Some (map (\<lambda>h. h\<lparr>fingerExtension := fe h\<rparr>) hands)) s) =
   map_sum id (updateFromHandData (Some (map (\<lambda>h. h\<lparr>fingerExtension := fe h\<rparr>) hands)))
     (handleFingerInteraction index (updateFromHandData (Some hands) s))"
proof (cases "hands = []")
  case True
  then show ?thesis by (simp add: handleFingerInteraction_def updateFromHandData_def)
next
  case False
  let ?fp = "Some (map (\<lambda>h. h\<lparr>fingerExtension := fe h\<rparr>) hands)"
  have "interact_hands index (f32_get (particles s) (index * 3))
          (f32_get (particles s) (index * 3 + 1))
          (map (\<lambda>h. h\<lparr>fingerExtension := fe h\<rparr>) hands)
          ((s\<lparr>fingerPositions := Some hands\<rparr>)\<lparr>fingerPositions := ?fp\<rparr>) =
        map_sum id (\<lambda>s'. s'\<lparr>fingerPositions := ?fp\<rparr>)
          (interact_hands index (f32_get (particles s) (index * 3))
             (f32_get (particles s) (index * 3 + 1)) hands (s\<lparr>fingerPositions := Some hands\<rparr>))"
    by (rule interact_hands_snapshot)
  moreover have "updateFromHandData ?fp = (\<lambda>s'. s'\<lparr>fingerPositions := ?fp\<rparr>)"
    by (simp add: fun_eq_iff updateFromHandData_def)
  ultimately show ?thesis
    using False by (simp add: handleFingerInteraction_def) (simp add: updateFromHandData_def)
qed

text \<open>
  Claim C7 at the failing input: gravity 0, every \<open>Math.random()\<close> call returning 0 and
  one extended finger at the origin. The \<open>update\<close> of frame 0 emits a particle at the
  tip with planar velocity 0; in the \<open>update\<close> of frame 1 the particle is still exactly
  under the tip, the distance is 0, and \<open>dx / distance\<close> is \<open>0 / 0\<close>: both planar velocity
  components become \<open>NaN\<close>.
\<close>

theorem zero_distance_gives_NaN:
  "update 0 0 (zero_rng, still_pool1) = Inr (zero_rng, still_emitted1) \<and>
   update 0 1 (zero_rng, still_emitted1) =
     Inr (zero_rng, still_emitted1\<lparr>particles := [Fin 0, Fin 0, Fin (- (49 / 500))],
        velocities := [Some \<lparr>vec_x = NaN, vec_y = NaN, vec_z = Fin (- (49 / 500))\<rparr>],
        lifetimes := [Fin 1504]\<rparr>)"
  by (simp add: still_frame0) (simp add: update_def still_frame1_pass)

section \<open>Emitting a particle (claim C4)\<close>

text \<open>
  Claim C4, as stated, fails on the velocity: the depth component is drawn on its own in
  \<open>[-0.1, 0.1)\<close>, so the velocity is not a direction times a speed below \<open>maxSpeed\<close>.
  With \<open>maxSpeed = 0.05\<close> and every draw 0 the emitted velocity is \<open>(0, 0, -0.1)\<close>, of
  speed 0.1. The call also returns \<open>undefined\<close>, not the slot index.
\<close>

theorem emitted_faster_than_maxSpeed:
  "fst (emitParticle 0 0 0 (zero_rng, slow_pool1)) = None \<and>
   velocities (snd (snd (emitParticle 0 0 0 (zero_rng, slow_pool1))))
     = [Some \<lparr>vec_x = Fin 0, vec_y = Fin 0, vec_z = Fin (- (1 / 10))\<rparr>] \<and>
   maxSpeed (options slow_pool1) = 1 / 20 \<and>
   \<not> speed_of 0 0 (- (1 / 10)) < maxSpeed (options slow_pool1)"
  by (simp add: emit_slow_pool1 speed_of_depth)
     (simp add: slow_pool1_def updateProperties_def merge_options_def no_properties_def)

text \<open>
  Claim C4, amended: in a pool of capacity at least 1 with a non-empty palette,
  \<open>emitParticle(x, y, z)\<close> selects the first inactive slot of the scan from index 0 or,
  when every slot is active, the slot \<open>floor(r * maxParticles)\<close> of a draw \<open>r\<close> (each slot
  for draws in an interval of the same length); it marks the slot active, sets its
  position to \<open>(x, y, z)\<close>, its planar velocity to the direction of a random angle times a
  speed in \<open>[0, maxSpeed)\<close> (for \<open>maxSpeed > 0\<close>) and its depth velocity to an independent
  draw in \<open>[-0.1, 0.1)\<close>, its lifetime to the configured lifetime and its colour to the
  palette entry \<open>floor(r' * colors.length)\<close> of a draw \<open>r'\<close>; every other slot is left as
  it was.
\<close>

theorem emitParticle_effect:
  assumes "pool_ok s" "0 < maxParticles s" "rng_ok g" "colors (options s) \<noteq> []"
    and "select_slot g s = (i, g0)" "emitParticle x y z (g, s) = (ret, g', s')"
  shows "i < maxParticles s \<and>
    ((\<exists>j<maxParticles s. \<not> active s ! j) \<longrightarrow>
        \<not> active s ! i \<and> (\<forall>j<i. active s ! j) \<and> g0 = g) \<and>
    ((\<forall>j<maxParticles s. active s ! j) \<longrightarrow>
        i = nat \<lfloor>g 0 * real (maxParticles s)\<rfloor> \<and> g0 = (\<lambda>n. g (Suc n)) \<and>
        (\<forall>k. (i = k) = (real k / real (maxParticles s) \<le> g 0 \<and>
                        g 0 < (real k + 1) / real (maxParticles s)))) \<and>
    active s' ! i \<and>
    particles s' ! (i * 3) = Fin x \<and> particles s' ! (i * 3 + 1) = Fin y \<and>
    particles s' ! (i * 3 + 2) = Fin z \<and>
    velocities s' ! i =
      Some \<lparr>vec_x = Fin (cos (g0 0 * pi * 2) * (g0 1 * maxSpeed (options s))),
            vec_y = Fin (sin (g0 0 * pi * 2) * (g0 1 * maxSpeed (options s))),
            vec_z = Fin ((g0 2 - 0.5) * 0.2)\<rparr> \<and>
    (0 < maxSpeed (options s) \<longrightarrow>
        0 \<le> g0 1 * maxSpeed (options s) \<and> g0 1 * maxSpeed (options s) < maxSpeed (options s)) \<and>
    - (1 / 10) \<le> (g0 2 - 0.5) * 0.2 \<and> (g0 2 - 0.5) * 0.2 < 1 / 10 \<and>
    lifetimes s' ! i = Fin (lifetime (options s)) \<and>
    nat \<lfloor>g0 3 * real (length (colors (options s)))\<rfloor> < length (colors (options s)) \<and>
    (\<forall>k. (nat \<lfloor>g0 3 * real (length (colors (options s)))\<rfloor> = k) =
          (real k / real (length (colors (options s))) \<le> g0 3 \<and>
           g0 3 < (real k + 1) / real (length (colors (options s))))) \<and>
    (Fin (fst (colors (options s) ! nat \<lfloor>g0 3 * real (length (colors (options s)))\<rfloor>)),
     Fin (fst (snd (colors (options s) ! nat \<lfloor>g0 3 * real (length (colors (options s)))\<rfloor>))),
     Fin (snd (snd (colors (options s) ! nat \<lfloor>g0 3 * real (length (colors (options s)))\<rfloor>))))
      = (particleColors s' ! (i * 3), particleColors s' ! (i * 3 + 1),
         particleColors s' ! (i * 3 + 2)) \<and>
    (\<forall>j. j \<noteq> i \<longrightarrow> slot_same j s s') \<and> same_globals s s'"
proof -
  have N: "length (active s) = maxParticles s" using assms(1,2) by (simp add: pool_ok_def)
  have fg: "flag_get (active s) j = active s ! j" if "j < maxParticles s" for j
    using that N by (simp add: flag_get_def)
  from select_slot_bound [OF assms(3,2)] assms(5) have i: "i < maxParticles s" by simp
  from select_slot_rng [OF assms(3), of s] assms(5) have g0: "rng_ok g0" by simp
  then have d: "\<And>n. 0 \<le> g0 n" "\<And>n. g0 n < 1" by (simp_all add: rng_ok_def)
  from assms(3) have gd: "0 \<le> g 0" "g 0 < 1" by (simp_all add: rng_ok_def)
  note sl = pool_ok_slot [OF assms(1) i]
  have free: "(\<exists>j<maxParticles s. \<not> active s ! j) \<longrightarrow>
        \<not> active s ! i \<and> (\<forall>j<i. active s ! j) \<and> g0 = g"
  proof
    assume "\<exists>j<maxParticles s. \<not> active s ! j"
    then obtain j where j: "j < maxParticles s" "\<not> flag_get (active s) j" by (auto simp: fg)
    then have "find (\<lambda>i. \<not> flag_get (active s) i) [0..<maxParticles s] \<noteq> None"
      by (auto simp: find_None_iff)
    then obtain m where m: "find (\<lambda>i. \<not> flag_get (active s) i) [0..<maxParticles s] = Some m"
      by auto
    from select_slot_found(1) [OF m, of g] select_slot_found(2-4) [OF m] assms(5)
    have "i = m" "g0 = g" "m < maxParticles s" "\<not> flag_get (active s) m"
      "\<forall>j<m. flag_get (active s) j" by simp_all
    then show "\<not> active s ! i \<and> (\<forall>j<i. active s ! j) \<and> g0 = g" by (auto simp: fg)
  qed
  have full: "(\<forall>j<maxParticles s. active s ! j) \<longrightarrow>
        i = nat \<lfloor>g 0 * real (maxParticles s)\<rfloor> \<and> g0 = (\<lambda>n. g (Suc n)) \<and>
        (\<forall>k. (i = k) = (real k / real (maxParticles s) \<le> g 0 \<and>
                        g 0 < (real k + 1) / real (maxParticles s)))"
  proof
    assume a: "\<forall>j<maxParticles s. active s ! j"
    then have "find (\<lambda>i. \<not> flag_get (active s) i) [0..<maxParticles s] = None"
      by (auto simp: find_None_iff fg)
    from select_slot_saturated(1) [OF this, of g] assms(5)
    have e: "i = nat \<lfloor>g 0 * real (maxParticles s)\<rfloor>" "g0 = (\<lambda>n. g (Suc n))" by simp_all
    with floor_draw_iff [OF gd(1) assms(2)]
    show "i = nat \<lfloor>g 0 * real (maxParticles s)\<rfloor> \<and> g0 = (\<lambda>n. g (Suc n)) \<and>
        (\<forall>k. (i = k) = (real k / real (maxParticles s) \<le> g 0 \<and>
                        g 0 < (real k + 1) / real (maxParticles s)))" by simp
  qed
  have cl: "0 < length (colors (options s))" using assms(4) by simp
  have ci: "nat \<lfloor>g0 3 * real (length (colors (options s)))\<rfloor> < length (colors (options s))"
    by (rule floor_draw_less [OF d(1) d(2) cl])
  have sp: "0 < maxSpeed (options s) \<longrightarrow>
        0 \<le> g0 1 * maxSpeed (options s) \<and> g0 1 * maxSpeed (options s) < maxSpeed (options s)"
    using d(1) [of 1] d(2) [of 1] by simp
  have dz: "- (1 / 10) \<le> (g0 2 - 0.5) * 0.2" "(g0 2 - 0.5) * 0.2 < 1 / 10"
    using d(1) [of 2] d(2) [of 2] by simp_all
  have s': "s' = snd (snd (emitParticle x y z (g, s)))" using assms(6) by simp
  have sel: "fst (select_slot g s) = i" "snd (select_slot g s) = g0" using assms(5) by simp_all
  have z: "(\<lambda>n. g0 (n + 3)) 0 = g0 3" by simp
  have st: "active s' ! i" "particles s' ! (i * 3) = Fin x" "particles s' ! (i * 3 + 1) = Fin y"
    "particles s' ! (i * 3 + 2) = Fin z"
    "velocities s' ! i =
      Some \<lparr>vec_x = Fin (cos (g0 0 * pi * 2) * (g0 1 * maxSpeed (options s))),
            vec_y = Fin (sin (g0 0 * pi * 2) * (g0 1 * maxSpeed (options s))),
            vec_z = Fin ((g0 2 - 0.5) * 0.2)\<rparr>"
    "lifetimes s' ! i = Fin (lifetime (options s))"
    using sl by (simp_all add: s' emitParticle_eq Let_def sel f32_set_in)
  have col: "(Fin (fst (colors (options s) ! nat \<lfloor>g0 3 * real (length (colors (options s)))\<rfloor>)),
     Fin (fst (snd (colors (options s) ! nat \<lfloor>g0 3 * real (length (colors (options s)))\<rfloor>))),
     Fin (snd (snd (colors (options s) ! nat \<lfloor>g0 3 * real (length (colors (options s)))\<rfloor>))))
      = (particleColors s' ! (i * 3), particleColors s' ! (i * 3 + 1),
         particleColors s' ! (i * 3 + 2))"
    using sl ci
    by (simp add: s' emitParticle_eq Let_def sel f32_set_in getRandomColor_eq THREE_Color_def)
  have other: "\<forall>j. j \<noteq> i \<longrightarrow> slot_same j s s'"
  proof (intro allI impI)
    fix j assume ji: "j \<noteq> i"
    have "\<And>k. k < 3 \<Longrightarrow> j * 3 + k \<noteq> i * 3 \<and> j * 3 + k \<noteq> Suc (i * 3) \<and>
        j * 3 + k \<noteq> Suc (Suc (i * 3))" using ji by arith
    with ji sl show "slot_same j s s'"
      by (simp add: s' emitParticle_eq Let_def sel f32_set_in slot_same_def)
  qed
  have gl: "same_globals s s'" unfolding s' by (rule emitParticle_globals)
  have cu: "\<forall>k. (nat \<lfloor>g0 3 * real (length (colors (options s)))\<rfloor> = k) =
          (real k / real (length (colors (options s))) \<le> g0 3 \<and>
           g0 3 < (real k + 1) / real (length (colors (options s))))"
    using floor_draw_iff [OF d(1) cl, of 3] by blast
  show ?thesis
    by (intro conjI) (fact i free full st sp dz ci cu col other gl)+
qed

text \<open>
  Witness for C4: the one-slot pool, first with its slot free, then with its slot taken.
\<close>

theorem emitParticle_effect_witness:
  "pool_ok pool1 \<and> 0 < maxParticles pool1 \<and> rng_ok zero_rng \<and> colors (options pool1) \<noteq> [] \<and>
   select_slot zero_rng pool1 = (0, zero_rng) \<and> \<not> active pool1 ! 0 \<and>
   active (snd (snd (emitParticle 0 0 0 (zero_rng, pool1)))) ! 0 \<and>
   particles (snd (snd (emitParticle 0 0 0 (zero_rng, pool1)))) ! (0 * 3 + 2) = Fin 0 \<and>
   velocities (snd (snd (emitParticle 0 0 0 (zero_rng, pool1)))) ! 0
     = Some \<lparr>vec_x = Fin 0, vec_y = Fin 0, vec_z = Fin (- (1 / 10))\<rparr> \<and>
   lifetimes (snd (snd (emitParticle 0 0 0 (zero_rng, pool1)))) ! 0 = Fin 1500 \<and>
   particleColors (snd (snd (emitParticle 0 0 0 (zero_rng, pool1)))) ! (0 * 3) = Fin 1 \<and>
   pool_ok emitted1 \<and> active emitted1 ! 0 \<and> select_slot zero_rng emitted1 = (0, zero_rng) \<and>
   particles (snd (snd (emitParticle 1 2 3 (zero_rng, emitted1)))) ! (0 * 3 + 2) = Fin 3"
proof -
  have ok: "pool_ok pool1" using reachable_pool_ok [OF pool1_reachable] by simp
  have f: "0 < maxParticles pool1" "colors (options pool1) \<noteq> []" "\<not> active pool1 ! 0"
    "lifetime (options pool1) = 1500" "maxSpeed (options pool1) = 2"
    "colors (options pool1) ! 0 = (1, 4 / 15, 4 / 15)" "length (colors (options pool1)) = 5"
    by (simp_all add: pool1_eq Config_particles_def)
  have t: "emitParticle 0 0 0 (zero_rng, pool1) =
     (fst (emitParticle 0 0 0 (zero_rng, pool1)), fst (snd (emitParticle 0 0 0 (zero_rng, pool1))),
      snd (snd (emitParticle 0 0 0 (zero_rng, pool1))))" by simp
  note e = emitParticle_effect [OF ok f(1) zero_rng_ok f(2) select_slot_pool1 t]
  have z: "zero_rng n = 0" for n by (simp add: zero_rng_def)
  from e have 1:
    "active (snd (snd (emitParticle 0 0 0 (zero_rng, pool1)))) ! 0"
    "particles (snd (snd (emitParticle 0 0 0 (zero_rng, pool1)))) ! (0 * 3 + 2) = Fin 0"
    "velocities (snd (snd (emitParticle 0 0 0 (zero_rng, pool1)))) ! 0
      = Some \<lparr>vec_x = Fin (cos (zero_rng 0 * pi * 2) * (zero_rng 1 * maxSpeed (options pool1))),
            vec_y = Fin (sin (zero_rng 0 * pi * 2) * (zero_rng 1 * maxSpeed (options pool1))),
            vec_z = Fin ((zero_rng 2 - 0.5) * 0.2)\<rparr>"
    "lifetimes (snd (snd (emitParticle 0 0 0 (zero_rng, pool1)))) ! 0 = Fin (lifetime (options pool1))"
    "Fin (fst (colors (options pool1) ! nat \<lfloor>zero_rng 3 * real (length (colors (options pool1)))\<rfloor>))
      = particleColors (snd (snd (emitParticle 0 0 0 (zero_rng, pool1)))) ! (0 * 3)"
    by blast+
  have sel: "select_slot zero_rng emitted1 = (0, zero_rng)"
    by (simp add: select_slot_def emitted1_record flag_get_def zero_rng_def random_next_def)
  have a: "0 < maxParticles emitted1" "colors (options emitted1) \<noteq> []" "active emitted1 ! 0"
    by (simp_all add: emitted1_record Config_particles_def)
  have t2: "emitParticle 1 2 3 (zero_rng, emitted1) =
     (fst (emitParticle 1 2 3 (zero_rng, emitted1)), fst (snd (emitParticle 1 2 3 (zero_rng, emitted1))),
      snd (snd (emitParticle 1 2 3 (zero_rng, emitted1))))" by simp
  from emitParticle_effect [OF emitted1_ok a(1) zero_rng_ok a(2) sel t2]
  have 2: "particles (snd (snd (emitParticle 1 2 3 (zero_rng, emitted1)))) ! (0 * 3 + 2) = Fin 3"
    by blast
  from 1(3) have v: "velocities (snd (snd (emitParticle 0 0 0 (zero_rng, pool1)))) ! 0
     = Some \<lparr>vec_x = Fin 0, vec_y = Fin 0, vec_z = Fin (- (1 / 10))\<rparr>"
    by (simp add: z f)
  from 1(5) have c: "particleColors (snd (snd (emitParticle 0 0 0 (zero_rng, pool1)))) ! (0 * 3) = Fin 1"
    by (simp add: z f)
  from 1(4) have l: "lifetimes (snd (snd (emitParticle 0 0 0 (zero_rng, pool1)))) ! 0 = Fin 1500"
    by (simp add: f)
  show ?thesis
    by (intro conjI)
       (fact ok f(1) zero_rng_ok f(2) select_slot_pool1 f(3) 1(1) 1(2) v l c emitted1_ok a(3) sel 2)+
qed

section \<open>Emission from the fingers (claim C8)\<close>

text \<open>
  Claim C8: for an emission rate of at least 1, \<open>update\<close> on an odd frame is its particle
  pass alone (no draw is consumed, no particle emitted) and on an even frame runs
  \<open>emitParticlesFromFingers\<close> after the pass. That function visits every tip of every
  hand in order. A tip whose extension flag is false changes nothing. A tip whose flag is
  true draws a count \<open>n = floor(r * emissionRate) + 1\<close>, which lies in
  \<open>[1, emissionRate]\<close> and takes each value \<open>m\<close> for the draws of an interval of length
  \<open>1 / emissionRate\<close>, and calls \<open>emitParticle(tip.x, tip.y, 0)\<close> exactly \<open>n\<close> times.
\<close>

theorem emission_gate:
  assumes "rng_ok g" "1 \<le> emissionRate (options s)"
  shows "(frameCount mod 2 \<noteq> 0 \<longrightarrow>
            update deltaTime frameCount (g, s) =
              (case update_particles s of Inl e \<Rightarrow> Inl e | Inr (c, s1) \<Rightarrow> Inr (g, s1))) \<and>
         (frameCount mod 2 = 0 \<longrightarrow>
            update deltaTime frameCount (g, s) =
              (case update_particles s of
                 Inl e \<Rightarrow> Inl e
               | Inr (c, s1) \<Rightarrow>
                   Inr (fst (emitParticlesFromFingers (g, s1)),
                        if frameCount mod 30 = 0
                        then (snd (emitParticlesFromFingers (g, s1)))\<lparr>particleCount := c\<rparr>
                        else snd (emitParticlesFromFingers (g, s1))))) \<and>
         (fingerPositions s = Some hands \<longrightarrow>
            emitParticlesFromFingers (g, s) =
              fold (\<lambda>p. emit_tip (fst p) (fst (snd p)) (snd (snd p))) (tip_triples hands) (g, s)) \<and>
         (\<not> flag_get (fingerExtension h) k \<longrightarrow> emit_tip h t k (g, s) = (g, s)) \<and>
         (flag_get (fingerExtension h) k \<longrightarrow>
            1 \<le> randomInt 1 (emissionRate (options s)) (g 0) \<and>
            randomInt 1 (emissionRate (options s)) (g 0) \<le> emissionRate (options s) \<and>
            (\<forall>m. (randomInt 1 (emissionRate (options s)) (g 0) = m) =
                 (real_of_int (m - 1) / real_of_int (emissionRate (options s)) \<le> g 0 \<and>
                  g 0 < real_of_int m / real_of_int (emissionRate (options s)))) \<and>
            emit_tip h t k (g, s) =
              ((\<lambda>a. snd (emitParticle (tip_x t) (tip_y t) 0 a))
                 ^^ nat (randomInt 1 (emissionRate (options s)) (g 0))) (\<lambda>n. g (Suc n), s))"
proof -
  from assms(1) have r: "0 \<le> g 0" "g 0 < 1" by (simp_all add: rng_ok_def)
  note ri = randomInt_range [OF r assms(2)]
  have 1: "fingerPositions s = Some hands \<longrightarrow>
            emitParticlesFromFingers (g, s) =
              fold (\<lambda>p. emit_tip (fst p) (fst (snd p)) (snd (snd p))) (tip_triples hands) (g, s)"
    by (cases "hands = []") (simp_all add: emitParticlesFromFingers_def emit_hands_fold tip_triples_def)
  have 2: "\<not> flag_get (fingerExtension h) k \<longrightarrow> emit_tip h t k (g, s) = (g, s)"
    by (simp add: emit_tip_def)
  have 3: "flag_get (fingerExtension h) k \<longrightarrow>
            emit_tip h t k (g, s) =
              ((\<lambda>a. snd (emitParticle (tip_x t) (tip_y t) 0 a))
                 ^^ nat (randomInt 1 (emissionRate (options s)) (g 0))) (\<lambda>n. g (Suc n), s)"
    by (simp add: emit_tip_def random_next_def emit_times_funpow)
  show ?thesis
    using 1 2 3 ri update_odd_frame [of frameCount deltaTime g s]
      update_even_frame [of frameCount deltaTime g s]
    by blast
qed

text \<open>
  Witness for C8: a pool seeing one extended finger, on frame 1 and on frame 0, and a
  curled finger.
\<close>

theorem emission_gate_witness:
  "rng_ok zero_rng \<and> 1 \<le> emissionRate (options still_pool1) \<and>
   fingerPositions still_pool1 = Some [open_hand_here] \<and>
   tip_triples [open_hand_here] = [(open_hand_here, tip_at 0 0, 0)] \<and>
   flag_get (fingerExtension open_hand_here) 0 \<and> \<not> flag_get (fingerExtension curled_hand) 0 \<and>
   update 0 1 (zero_rng, still_pool1) = Inr (zero_rng, still_pool1) \<and>
   update 0 0 (zero_rng, still_pool1) = Inr (zero_rng, still_emitted1) \<and>
   randomInt 1 (emissionRate (options still_pool1)) (zero_rng 0) = 1 \<and>
   emit_tip open_hand_here (tip_at 0 0) 0 (zero_rng, still_pool1)
     = snd (emitParticle 0 0 0 (zero_rng, still_pool1)) \<and>
   emit_tip curled_hand (tip_at 1 0) 0 (zero_rng, still_pool1) = (zero_rng, still_pool1)"
proof -
  have e: "1 \<le> emissionRate (options still_pool1)"
    by (simp add: still_pool1_eq Config_particles_def)
  have f: "flag_get (fingerExtension open_hand_here) 0"
    "\<not> flag_get (fingerExtension curled_hand) 0"
    "fingerPositions still_pool1 = Some [open_hand_here]"
    "tip_triples [open_hand_here] = [(open_hand_here, tip_at 0 0, 0)]"
    by (simp_all add: flag_get_def open_hand_here_def curled_hand_def still_pool1_eq
        tip_triples_def)
  have n: "randomInt 1 (emissionRate (options still_pool1)) (zero_rng 0) = 1"
    by (simp add: randomInt_def zero_rng_def)
  have z: "(\<lambda>n. zero_rng (Suc n)) = zero_rng" by (simp add: zero_rng_def)
  note g1 = emission_gate [OF zero_rng_ok e, of 1 0 "[open_hand_here]" curled_hand 0 "tip_at 1 0"]
  note g0 = emission_gate [OF zero_rng_ok e, of 0 0 "[open_hand_here]" open_hand_here 0 "tip_at 0 0"]
  from g1 have a: "update 0 1 (zero_rng, still_pool1) = Inr (zero_rng, still_pool1)"
    by (simp add: still_frame0_pass)
  from g1 f(2) have b: "emit_tip curled_hand (tip_at 1 0) 0 (zero_rng, still_pool1)
      = (zero_rng, still_pool1)" by blast
  from g0 f(1) have "emit_tip open_hand_here (tip_at 0 0) 0 (zero_rng, still_pool1) =
              ((\<lambda>a. snd (emitParticle (tip_x (tip_at 0 0)) (tip_y (tip_at 0 0)) 0 a))
                 ^^ nat (randomInt 1 (emissionRate (options still_pool1)) (zero_rng 0)))
                (\<lambda>n. zero_rng (Suc n), still_pool1)" by blast
  then have c: "emit_tip open_hand_here (tip_at 0 0) 0 (zero_rng, still_pool1)
     = snd (emitParticle 0 0 0 (zero_rng, still_pool1))"
    by (simp add: n z)
  from a b c e f n zero_rng_ok still_frame0 show ?thesis by simp
qed

end
